theory Spec2Isabelle
  imports Main
begin

section \<open>Errors\<close>

text \<open>
  Every exception the modelled code can raise is a value. The string of an error is the
  message the source builds, or the name of what was missing.
\<close>

datatype error =
    ValueError string
  | TypeError string
  | AttributeError string
  | KeyError string
  | UnboundLocalError string
  | FileNotFoundError string
  | IsADirectoryError string
  | ValidationError string string
  | CsvError string
  | JSONDecodeError string
  | RecursionError
  | Unrepresentable string

section \<open>Characters\<close>

abbreviation LF :: char where "LF \<equiv> CHR 0x0A"
abbreviation CR :: char where "CR \<equiv> CHR 0x0D"
abbreviation TAB :: char where "TAB \<equiv> CHR 0x09"
abbreviation BS :: char where "BS \<equiv> CHR 0x08"
abbreviation FF :: char where "FF \<equiv> CHR 0x0C"
abbreviation DQUOTE :: char where "DQUOTE \<equiv> CHR 0x22"
abbreviation BACKSLASH :: char where "BACKSLASH \<equiv> CHR 0x5C"

section \<open>Python's text conversions\<close>

text \<open>
  \<open>str\<close> of an \<open>int\<close> is its decimal numeral with a minus sign for negatives; \<open>str\<close> of a
  \<open>bool\<close> is \<open>True\<close> or \<open>False\<close>.
\<close>

definition digit_char :: "nat \<Rightarrow> char" where
  "digit_char d = ''0123456789'' ! d"

fun str_nat :: "nat \<Rightarrow> string" where
  "str_nat n = (if n < 10 then [digit_char n] else str_nat (n div 10) @ [digit_char (n mod 10)])"

declare str_nat.simps [simp del]

definition str_int :: "int \<Rightarrow> string" where
  "str_int i = (if i < 0 then CHR ''-'' # str_nat (nat (- i)) else str_nat (nat i))"

definition str_bool :: "bool \<Rightarrow> string" where
  "str_bool b = (if b then ''True'' else ''False'')"

section \<open>cs_tools/utils.py\<close>

subsection \<open>chunks\<close>

text \<open>
  \<^verbatim>\<open>
  def chunks(iterable, *, n):
      if n < 1:
          raise ValueError("n must be at least one")
      iterable = iter(iterable)
      while batch := tuple(it.islice(iterable, n)):
          yield batch
  \<close>
  The iterator is the list of the elements not yet consumed; \<open>islice(iterable, n)\<close> takes
  the next \<open>n\<close> of them (fewer at the end) and leaves the rest. The loop stops at the first
  empty batch. The generator is modelled by the list of everything it yields, or by the
  error it raises when it is first advanced.
\<close>

function chunks_loop :: "'a list \<Rightarrow> nat \<Rightarrow> 'a list list" where
  "chunks_loop iterable n =
     (if take n iterable = [] then []
      else take n iterable # chunks_loop (drop n iterable) n)"
  by pat_completeness auto
termination
  by (relation "measure (\<lambda>(iterable, n). length iterable)") auto

declare chunks_loop.simps [simp del]

definition chunks :: "'a list \<Rightarrow> int \<Rightarrow> error + 'a list list" where
  "chunks iterable n =
     (if n < 1 then Inl (ValueError ''n must be at least one'')
      else Inr (chunks_loop iterable (nat n)))"

subsection \<open>State\<close>

text \<open>
  \<^verbatim>\<open>
  class State:
      _state: dict[str, Any]
      def __init__(self, state=None):
          if state is None:
              state = {}
          super().__setattr__("_state", state)
      def __setattr__(self, key, value):
          self._state[key] = value
      def __getattr__(self, key):
          try:
              return self._state[key]
          except KeyError:
              cls_name = self.__class__.__name__
              raise AttributeError(f"'{cls_name}' object has no attribute '{key}'") from None
      def __delattr__(self, key):
          del self._state[key]
  \<close>
  The object holds one instance attribute, \<open>_state\<close>, put there by \<open>object.__setattr__\<close>
  in the constructor. The three hooks work on that dictionary.
\<close>

record 'v State =
  state_dict :: "string \<rightharpoonup> 'v"

definition State_init :: "(string \<rightharpoonup> 'v) option \<Rightarrow> 'v State" where
  "State_init state = \<lparr>state_dict = (case state of None \<Rightarrow> Map.empty | Some d \<Rightarrow> d)\<rparr>"

definition State_setattr :: "'v State \<Rightarrow> string \<Rightarrow> 'v \<Rightarrow> 'v State" where
  "State_setattr self key v = self\<lparr>state_dict := (state_dict self)(key \<mapsto> v)\<rparr>"

definition State_getattr :: "string \<Rightarrow> 'v State \<Rightarrow> string \<Rightarrow> error + 'v" where
  "State_getattr cls_name self key =
     (case state_dict self key of
        Some v \<Rightarrow> Inr v
      | None \<Rightarrow>
          Inl (AttributeError
                 ([CHR 0x27] @ cls_name @ [CHR 0x27] @ '' object has no attribute ''
                  @ [CHR 0x27] @ key @ [CHR 0x27])))"

definition State_delattr :: "'v State \<Rightarrow> string \<Rightarrow> error + 'v State" where
  "State_delattr self key =
     (case state_dict self key of
        Some v \<Rightarrow> Inr (self\<lparr>state_dict := (state_dict self)(key := None)\<rparr>)
      | None \<Rightarrow> Inl (KeyError key))"

text \<open>
  Python calls \<open>__getattr__\<close> only when the ordinary lookup of \<open>obj.key\<close> has failed, and
  the body of \<open>__getattr__\<close> itself relies on it: it reads \<open>self._state\<close>, which the
  ordinary lookup finds in the instance. The ordinary lookup also finds every name the
  class defines (the four methods above) and every name of the base class \<open>object\<close>; the
  latter are a parameter here. An attribute read gives the dictionary itself, a member of
  the class, or a stored value.
\<close>

datatype 'v attribute =
    Instance_state "string \<rightharpoonup> 'v"
  | Class_member string
  | Stored 'v

definition State_class_names :: "string list" where
  "State_class_names = [''__init__'', ''__setattr__'', ''__getattr__'', ''__delattr__'']"

definition ordinary_lookup :: "string list \<Rightarrow> 'v State \<Rightarrow> string \<Rightarrow> 'v attribute option" where
  "ordinary_lookup object_names self key =
     (if key = ''_state'' then Some (Instance_state (state_dict self))
      else if key \<in> set State_class_names \<or> key \<in> set object_names then Some (Class_member key)
      else None)"

definition get_attribute ::
  "string list \<Rightarrow> string \<Rightarrow> 'v State \<Rightarrow> string \<Rightarrow> error + 'v attribute" where
  "get_attribute object_names cls_name self key =
     (case ordinary_lookup object_names self key of
        Some a \<Rightarrow> Inr a
      | None \<Rightarrow>
          (case State_getattr cls_name self key of
             Inl e \<Rightarrow> Inl e
           | Inr v \<Rightarrow> Inr (Stored v)))"

text \<open>Assignment \<open>obj.key = v\<close> always goes through \<open>__setattr__\<close>.\<close>

definition set_attribute :: "'v State \<Rightarrow> string \<Rightarrow> 'v \<Rightarrow> 'v State" where
  "set_attribute self key v = State_setattr self key v"

section \<open>cs_tools/cli/tools/git/config.py\<close>

text \<open>
  The four commands make one call each against the remote API inside
  \<^verbatim>\<open>
      try:
          r = ts.api_v2.vcs_git_config_search(org_ids=org_ids)
      except HTTPStatusError as e:
          rich_console.print(f"[b red]Error creating the configuration: {e.response}.")
          rich_console.print(f"[b red]{e.response.content}.")
      configs = r.json()
      _show_configs_as_table(configs)
  \<close>
  The remote call is a parameter: a function from the request to either the response that
  the raised \<open>HTTPStatusError\<close> carries (\<open>Inl\<close>) or the response returned (\<open>Inr\<close>). A
  response is known by its text (\<open>str\<close> of it), the text of its content and its JSON
  body: one configuration for \<open>create\<close> and \<open>update\<close>, a list of them for \<open>search\<close>, each
  a list of properties with the text of their values. What a command does is the list of its outputs in order, and the
  error it ends with, if any. The local variable \<open>r\<close> is bound only when the call
  returned; reading it unbound raises \<open>UnboundLocalError\<close>.
\<close>

record 'b response =
  response_str :: string
  response_content :: string
  response_json :: 'b

type_synonym config = "(string \<times> string) list"

datatype console_output =
    Print string
  | Print_table string "(string \<times> string) list"
  | Switch_org string

type_synonym ('req, 'b) api = "'req \<Rightarrow> 'b response + 'b response"

record create_request =
  repository_url :: string
  username :: string
  access_token :: string
  org_identifier :: "string option"
  branch_names :: "string list option"
  commit_branch_name :: "string option"
  enable_guid_mapping :: bool
  configuration_branch_name :: "string option"

record update_request =
  u_username :: "string option"
  u_access_token :: "string option"
  u_org_identifier :: "string option"
  u_branch_names :: "string list option"
  u_commit_branch_name :: "string option"
  u_enable_guid_mapping :: bool
  u_configuration_branch_name :: "string option"

text \<open>
  \<^verbatim>\<open>
  def _show_configs_as_table(configs, title="Configuration Details"):
      use_cnt = len(configs) > 1
      for count, config in enumerate(configs, start=1):
          title = f"{title} {count}" if use_cnt else title
          table = Table(title=f"Configuration Details {count}", width=100)
          ...
          for k, v in config.items():
              table.add_row(k, str(v))
          rich_console.print(Align.center(table))
  \<close>
  The title of each table is built from the count alone.
\<close>

definition show_configs_as_table :: "config list \<Rightarrow> console_output list" where
  "show_configs_as_table configs =
     map (\<lambda>(count, config). Print_table (''Configuration Details '' @ str_nat count) config)
       (zip [1 ..< Suc (length configs)] configs)"

definition switch_org :: "string option \<Rightarrow> console_output list" where
  "switch_org org = (case org of None \<Rightarrow> [] | Some name \<Rightarrow> [Switch_org name])"

text \<open>The \<open>try\<close> statement: the binding of \<open>r\<close> after it, and what the handler printed.\<close>

definition try_call :: "'b response + 'b response \<Rightarrow> 'b response option \<times> console_output list" where
  "try_call result =
     (case result of
        Inr r \<Rightarrow> (Some r, [])
      | Inl e \<Rightarrow>
          (None,
           [Print (''[b red]Error creating the configuration: '' @ response_str e @ ''.''),
            Print (''[b red]'' @ response_content e @ ''.'')]))"

definition config_create ::
  "(create_request, config) api \<Rightarrow> string option \<Rightarrow> string option \<Rightarrow> string option
     \<Rightarrow> string option \<Rightarrow> string list option \<Rightarrow> string option \<Rightarrow> bool \<Rightarrow> string option
     \<Rightarrow> console_output list \<times> error option" where
  "config_create api repository_url_arg username_arg access_token_arg org branch_names_arg
       commit_branch_name_arg enable_guid_mapping_arg configuration_branch_name_arg =
     (case (repository_url_arg, username_arg, access_token_arg) of
        (Some url, Some user, Some token) \<Rightarrow>
          (case try_call (api \<lparr>repository_url = url, username = user, access_token = token,
                               org_identifier = org, branch_names = branch_names_arg,
                               commit_branch_name = commit_branch_name_arg,
                               enable_guid_mapping = enable_guid_mapping_arg,
                               configuration_branch_name = configuration_branch_name_arg\<rparr>) of
             (None, printed) \<Rightarrow> (switch_org org @ printed, Some (UnboundLocalError ''r''))
           | (Some r, printed) \<Rightarrow>
               (switch_org org @ printed @ show_configs_as_table [response_json r], None))
      | _ \<Rightarrow>
          ([Print ''[b red]Must minimally provide the repository, username, and access_token.''],
           None))"

definition config_update ::
  "(update_request, config) api \<Rightarrow> string option \<Rightarrow> string option \<Rightarrow> string option
     \<Rightarrow> string list option \<Rightarrow> string option \<Rightarrow> bool \<Rightarrow> string option
     \<Rightarrow> console_output list \<times> error option" where
  "config_update api username_arg access_token_arg org branch_names_arg
       commit_branch_name_arg enable_guid_mapping_arg configuration_branch_name_arg =
     (case try_call (api \<lparr>u_username = username_arg, u_access_token = access_token_arg,
                          u_org_identifier = org, u_branch_names = branch_names_arg,
                          u_commit_branch_name = commit_branch_name_arg,
                          u_enable_guid_mapping = enable_guid_mapping_arg,
                          u_configuration_branch_name = configuration_branch_name_arg\<rparr>) of
        (None, printed) \<Rightarrow> (switch_org org @ printed, Some (UnboundLocalError ''r''))
      | (Some r, printed) \<Rightarrow>
          (switch_org org @ printed @ show_configs_as_table [response_json r], None))"

definition config_search ::
  "(string list option, config list) api \<Rightarrow> string option \<Rightarrow> string list option
     \<Rightarrow> console_output list \<times> error option" where
  "config_search api org org_ids =
     (case try_call (api org_ids) of
        (None, printed) \<Rightarrow> (switch_org org @ printed, Some (UnboundLocalError ''r''))
      | (Some r, printed) \<Rightarrow>
          (switch_org org @ printed @ show_configs_as_table (response_json r), None))"

definition config_delete ::
  "(bool, 'b) api \<Rightarrow> string option \<Rightarrow> bool \<Rightarrow> console_output list \<times> error option" where
  "config_delete api org cluster_level =
     (let announced =
            (case org of
               Some name \<Rightarrow> [Switch_org name]
             | None \<Rightarrow>
                 [Print ''[bold yellow]No org specified, the config in the current org will be deleted.''])
      in case try_call (api cluster_level) of
           (None, printed) \<Rightarrow> (announced @ printed, Some (UnboundLocalError ''r''))
         | (Some r, printed) \<Rightarrow>
             (announced @ printed
                @ [Print (''[green]Deleted the configuration: '' @ response_str r @ ''.'')],
              None))"

section \<open>Rows, the file system and the datetime formatter\<close>

text \<open>
  A Python object, as far as the syncers meet one: \<open>None\<close>, a \<open>bool\<close>, an \<open>int\<close>, a
  \<open>str\<close>, a date or datetime (of a type left open), a \<open>float\<close> known by its \<open>repr\<close>, a list, or a dictionary. A dictionary is the list of its items in
  insertion order, with distinct keys. \<open>TableRows\<close> is a list of dictionaries.
\<close>

datatype 'dt pyobj =
    PNone
  | PBool bool
  | PInt int
  | PStr string
  | PDateTime 'dt
  | PFloat string
  | PList "'dt pyobj list"
  | PDict "('dt pyobj \<times> 'dt pyobj) list"

type_synonym 'dt row = "('dt pyobj \<times> 'dt pyobj) list"

text \<open>\<open>d[k] = v\<close>: an existing key keeps its place, a new key goes to the end.\<close>

fun dict_set :: "('k \<times> 'v) list \<Rightarrow> 'k \<Rightarrow> 'v \<Rightarrow> ('k \<times> 'v) list" where
  "dict_set [] k v = [(k, v)]"
| "dict_set (item # d) k v = (if fst item = k then (k, v) # d else item # dict_set d k v)"

text \<open>\<open>dict(pairs)\<close>\<close>

definition dict_of :: "('k \<times> 'v) list \<Rightarrow> ('k \<times> 'v) list" where
  "dict_of pairs = foldl (\<lambda>d item. dict_set d (fst item) (snd item)) [] pairs"

text \<open>\<open>d.get(k, default)\<close>\<close>

definition dict_get :: "('k \<times> 'v) list \<Rightarrow> 'k \<Rightarrow> 'v \<Rightarrow> 'v" where
  "dict_get d k dflt = (case map_of d k of Some v \<Rightarrow> v | None \<Rightarrow> dflt)"

text \<open>\<open>m.get(k, default)\<close> on a dictionary kept as a map.\<close>

definition dict_get_map :: "('k \<rightharpoonup> 'v) \<Rightarrow> 'k \<Rightarrow> 'v \<Rightarrow> 'v" where
  "dict_get_map m k dflt = (case m k of Some v \<Rightarrow> v | None \<Rightarrow> dflt)"

text \<open>
  What the code takes from the Python runtime and is not defined here: \<open>strftime\<close> of a
  datetime for a format, \<open>str\<close> of the objects whose text is not fixed below (a
  datetime, a list, a dictionary), the \<open>repr\<close> of the float that a literal denotes, and
  the line separator of the platform, which a file opened for writing in text mode puts
  for every \<open>\n\<close>.
  A string is a list of characters with code points below 256.
\<close>

record 'dt python =
  strftime :: "string \<Rightarrow> 'dt \<Rightarrow> string"
  str_other :: "'dt pyobj \<Rightarrow> string"
  float_of_literal :: "string \<Rightarrow> string"
  linesep :: string

definition py_str :: "'dt python \<Rightarrow> 'dt pyobj \<Rightarrow> string" where
  "py_str py v =
     (case v of
        PNone \<Rightarrow> ''None''
      | PBool b \<Rightarrow> str_bool b
      | PInt i \<Rightarrow> str_int i
      | PStr s \<Rightarrow> s
      | PFloat r \<Rightarrow> r
      | _ \<Rightarrow> str_other py v)"

text \<open>
  Modelled from the spec: \<open>cs_tools/sync/utils.py\<close> is not among the sources, so
  \<open>format_datetime_values\<close> follows section 4.4: "given a record and a target format
  string, returns a copy of the record with every date/time-valued field rendered as
  text in that format; non-datetime fields pass through unchanged".
\<close>

definition format_datetime_values :: "'dt python \<Rightarrow> 'dt row \<Rightarrow> string \<Rightarrow> 'dt row" where
  "format_datetime_values py r dt_format =
     map (\<lambda>item. (fst item,
                  (case snd item of PDateTime d \<Rightarrow> PStr (strftime py dt_format d) | v \<Rightarrow> v))) r"

text \<open>
  The file system: the directories that exist and the text of every plain file, by path.
  A path below a directory is the directory, a slash and the name. Files are opened
  as text with no newline translation, so the text of a file is what was written.
\<close>

record filesystem =
  dirs :: "string list"
  files :: "string \<rightharpoonup> string"

definition joinpath :: "string \<Rightarrow> string \<Rightarrow> string" where
  "joinpath directory name = directory @ ''/'' @ name"

definition path_exists :: "filesystem \<Rightarrow> string \<Rightarrow> bool" where
  "path_exists fs path = (path \<in> set (dirs fs) \<or> files fs path \<noteq> None)"

definition is_file :: "filesystem \<Rightarrow> string \<Rightarrow> bool" where
  "is_file fs path = (files fs path \<noteq> None)"

datatype open_mode = Mode_w | Mode_a

text \<open>
  \<open>open\<close> for reading gives the text, or fails when the path is a directory or absent.
  \<open>open\<close> for writing in \<open>parent\<close> fails when \<open>parent\<close> is no directory or the path is one;
  otherwise the file exists from then on, empty in mode \<open>w\<close>, with its old text in mode \<open>a\<close>
  (empty if it was absent).
\<close>

definition open_read :: "filesystem \<Rightarrow> string \<Rightarrow> error + string" where
  "open_read fs path =
     (if path \<in> set (dirs fs) then Inl (IsADirectoryError path)
      else case files fs path of
             None \<Rightarrow> Inl (FileNotFoundError path)
           | Some text \<Rightarrow> Inr text)"

definition open_write :: "filesystem \<Rightarrow> string \<Rightarrow> string \<Rightarrow> open_mode \<Rightarrow> error + filesystem" where
  "open_write fs parent path mode =
     (if parent \<notin> set (dirs fs) then Inl (FileNotFoundError path)
      else if path \<in> set (dirs fs) then Inl (IsADirectoryError path)
      else Inr (fs\<lparr>files := (files fs)
                   (path \<mapsto> (case mode of
                                Mode_w \<Rightarrow> []
                              | Mode_a \<Rightarrow> (case files fs path of None \<Rightarrow> [] | Some text \<Rightarrow> text)))\<rparr>))"

text \<open>\<open>f.write(text)\<close> on a file open for writing.\<close>

definition file_write :: "filesystem \<Rightarrow> string \<Rightarrow> string \<Rightarrow> filesystem" where
  "file_write fs path text =
     fs\<lparr>files := (files fs)
           (path \<mapsto> (case files fs path of None \<Rightarrow> [] | Some old \<Rightarrow> old) @ text)\<rparr>"

text \<open>
  \<open>Path.read_text\<close> and \<open>Path.write_text\<close> open the file in text mode with the default
  newline handling: reading turns \<open>\r\n\<close> and a lone \<open>\r\<close> into \<open>\n\<close>, writing turns
  every \<open>\n\<close> into the line separator of the platform.
\<close>

fun universal_newlines :: "string \<Rightarrow> string" where
  "universal_newlines [] = []"
| "universal_newlines (c # cs) =
     (if c = CR then
        (case cs of
           [] \<Rightarrow> [LF]
         | c' # cs' \<Rightarrow> if c' = LF then LF # universal_newlines cs' else LF # universal_newlines cs)
      else c # universal_newlines cs)"

definition read_text :: "filesystem \<Rightarrow> string \<Rightarrow> error + string" where
  "read_text fs path =
     (case open_read fs path of
        Inl e \<Rightarrow> Inl e
      | Inr text \<Rightarrow> Inr (universal_newlines text))"

definition write_text :: "'dt python \<Rightarrow> filesystem \<Rightarrow> string \<Rightarrow> string \<Rightarrow> string \<Rightarrow> error + filesystem" where
  "write_text py fs parent path text =
     (case open_write fs parent path Mode_w of
        Inl e \<Rightarrow> Inl e
      | Inr fs_open \<Rightarrow>
          Inr (file_write fs_open path (concat (map (\<lambda>c. if c = LF then linesep py else [c]) text))))"

section \<open>The csv module, for the parameters the syncer passes\<close>

text \<open>
  The syncer hands \<open>csv.DictWriter\<close> and \<open>csv.DictReader\<close> the parameters \<open>delimiter\<close>,
  \<open>doublequote\<close>, \<open>escapechar\<close>, \<open>lineterminator\<close>, \<open>quotechar\<close> and \<open>quoting\<close> (one of
  \<open>QUOTE_MINIMAL\<close>, \<open>QUOTE_ALL\<close>); the others keep their defaults (\<open>skipinitialspace\<close> and
  \<open>strict\<close> false, \<open>restval\<close> empty for the writer and \<open>None\<close> for the reader, \<open>restkey\<close>
  \<open>None\<close>, \<open>extrasaction\<close> raise, field size limit 131072). The module is modelled for
  these: the writer joins the escaped flds of a record, the reader is the state
  machine that takes a line character by character and then the end of the line.
\<close>

datatype quoting = QUOTE_MINIMAL | QUOTE_ALL

record format_parameters =
  p_delimiter :: string
  p_doublequote :: bool
  p_escapechar :: string
  p_lineterminator :: string
  p_quotechar :: string
  p_quoting :: quoting

record dialect =
  delimiter_char :: char
  doublequote :: bool
  escapechar :: char
  lineterminator :: string
  quotechar :: char
  quoting_policy :: quoting

text \<open>The dialect is checked when a reader or writer is made.\<close>

definition Dialect :: "format_parameters \<Rightarrow> error + dialect" where
  "Dialect p =
     (if length (p_delimiter p) \<noteq> 1
        then Inl (TypeError (CHR 0x22 # ''delimiter'' @ CHR 0x22 # '' must be a 1-character string''))
      else if length (p_escapechar p) \<noteq> 1
        then Inl (TypeError (CHR 0x22 # ''escapechar'' @ CHR 0x22 # '' must be a 1-character string''))
      else if length (p_quotechar p) \<noteq> 1
        then Inl (TypeError (CHR 0x22 # ''quotechar'' @ CHR 0x22 # '' must be a 1-character string''))
      else Inr \<lparr>delimiter_char = hd (p_delimiter p), doublequote = p_doublequote p,
                escapechar = hd (p_escapechar p), lineterminator = p_lineterminator p,
                quotechar = hd (p_quotechar p), quoting_policy = p_quoting p\<rparr>)"

subsection \<open>Writing\<close>

text \<open>
  One character of a field: what is written for it, and whether it forces the field
  into quotes. A quote character is doubled when \<open>doublequote\<close> is set and prefixed with
  the escape character otherwise; the escape character is prefixed with itself; the
  delimiter and the characters of the line terminator are written as they are and
  force the quotes.
\<close>

definition write_char :: "dialect \<Rightarrow> char \<Rightarrow> string \<times> bool" where
  "write_char d c =
     (if c = delimiter_char d \<or> c = escapechar d \<or> c = quotechar d \<or> c \<in> set (lineterminator d)
      then (if c = quotechar d
              then (if doublequote d then ([quotechar d, c], True) else ([escapechar d, c], False))
            else if c = escapechar d then ([escapechar d, c], False)
            else ([c], True))
      else ([c], False))"

definition join_append :: "dialect \<Rightarrow> string \<Rightarrow> bool \<Rightarrow> string" where
  "join_append d field quoted =
     (let body = concat (map (\<lambda>c. fst (write_char d c)) field);
          quoted' = (quoted \<or> list_ex (\<lambda>c. snd (write_char d c)) field)
      in if quoted' then quotechar d # body @ [quotechar d] else body)"

fun join :: "'a list \<Rightarrow> 'a list list \<Rightarrow> 'a list" where
  "join sep [] = []"
| "join sep [x] = x"
| "join sep (x # y # ys) = x @ sep @ join sep (y # ys)"

text \<open>
  \<open>writer.writerow\<close>: the text of one record. A record of one empty field would be an
  empty line; it is written as a pair of quotes.
\<close>

definition writerow :: "dialect \<Rightarrow> string list \<Rightarrow> string" where
  "writerow d flds =
     (let record_text =
            join [delimiter_char d] (map (\<lambda>f. join_append d f (quoting_policy d = QUOTE_ALL)) flds)
      in (if flds \<noteq> [] \<and> record_text = [] then join_append d [] True else record_text)
         @ lineterminator d)"

text \<open>The text of a field: a string as it is, \<open>None\<close> as the empty string, else \<open>str\<close>.\<close>

definition field_text :: "'dt python \<Rightarrow> 'dt pyobj \<Rightarrow> string" where
  "field_text py v = (case v of PNone \<Rightarrow> [] | _ \<Rightarrow> py_str py v)"

record 'dt DictWriter =
  w_fieldnames :: "'dt pyobj list"
  w_dialect :: dialect

definition dict_to_list :: "'dt DictWriter \<Rightarrow> 'dt row \<Rightarrow> error + 'dt pyobj list" where
  "dict_to_list w rowdict =
     (if list_ex (\<lambda>k. k \<notin> set (w_fieldnames w)) (map fst rowdict)
        then Inl (ValueError ''dict contains flds not in fieldnames'')
      else Inr (map (\<lambda>key. dict_get rowdict key (PStr [])) (w_fieldnames w)))"

definition DictWriter_writerow :: "'dt python \<Rightarrow> 'dt DictWriter \<Rightarrow> 'dt row \<Rightarrow> error + string" where
  "DictWriter_writerow py w rowdict =
     (case dict_to_list w rowdict of
        Inl e \<Rightarrow> Inl e
      | Inr flds \<Rightarrow> Inr (writerow (w_dialect w) (map (field_text py) flds)))"

definition writeheader :: "'dt python \<Rightarrow> 'dt DictWriter \<Rightarrow> error + string" where
  "writeheader py w = DictWriter_writerow py w (dict_of (zip (w_fieldnames w) (w_fieldnames w)))"

text \<open>
  \<open>writerows\<close> writes record after record: the text written, and the error that stopped
  it, if any.
\<close>

fun writerows :: "'dt python \<Rightarrow> 'dt DictWriter \<Rightarrow> 'dt row list \<Rightarrow> string \<times> error option" where
  "writerows py w [] = ([], None)"
| "writerows py w (r # rs) =
     (case DictWriter_writerow py w r of
        Inl e \<Rightarrow> ([], Some e)
      | Inr line \<Rightarrow> (line @ fst (writerows py w rs), snd (writerows py w rs)))"

subsection \<open>Reading\<close>

text \<open>
  Iterating a text file opened with \<open>newline=""\<close> gives its lines with their
  terminators, a line ending at \<open>\n\<close>, at \<open>\r\n\<close> or at a lone \<open>\r\<close>.
\<close>

fun readlines :: "string \<Rightarrow> string \<Rightarrow> string list" where
  "readlines cur [] = (if cur = [] then [] else [cur])"
| "readlines cur (c # cs) =
     (if c = LF then (cur @ [c]) # readlines [] cs
      else if c = CR then
        (case cs of
           [] \<Rightarrow> [cur @ [c]]
         | c' # cs' \<Rightarrow>
             if c' = LF then (cur @ [c, c']) # readlines [] cs'
             else (cur @ [c]) # readlines [] cs)
      else readlines (cur @ [c]) cs)"

datatype parser_state =
    START_RECORD | START_FIELD | ESCAPED_CHAR | IN_FIELD | IN_QUOTED_FIELD
  | ESCAPE_IN_QUOTED_FIELD | QUOTE_IN_QUOTED_FIELD | EAT_CRNL | AFTER_ESCAPED_CRNL

record reader =
  cur_state :: parser_state
  cur_field :: string
  cur_fields :: "string list"

definition field_size_limit :: nat where
  "field_size_limit = 131072"

definition parse_reset :: reader where
  "parse_reset = \<lparr>cur_state = START_RECORD, cur_field = [], cur_fields = []\<rparr>"

definition parse_add_char :: "reader \<Rightarrow> char \<Rightarrow> parser_state \<Rightarrow> error + reader" where
  "parse_add_char r c s =
     (if field_size_limit \<le> length (cur_field r)
        then Inl (CsvError ''field larger than field limit (131072)'')
      else Inr (r\<lparr>cur_field := cur_field r @ [c], cur_state := s\<rparr>))"

definition parse_save_field :: "reader \<Rightarrow> parser_state \<Rightarrow> reader" where
  "parse_save_field r s = r\<lparr>cur_fields := cur_fields r @ [cur_field r], cur_field := [], cur_state := s\<rparr>"

text \<open>
  One step of the reader; \<open>None\<close> is the end of a line. The cases and their order are
  those of the module; \<open>START_RECORD\<close> falls through to \<open>START_FIELD\<close> and
  \<open>AFTER_ESCAPED_CRNL\<close> to \<open>IN_FIELD\<close>.
\<close>

definition start_field :: "dialect \<Rightarrow> reader \<Rightarrow> char option \<Rightarrow> error + reader" where
  "start_field d r ev =
     (case ev of
        None \<Rightarrow> Inr (parse_save_field r START_RECORD)
      | Some c \<Rightarrow>
          if c = LF \<or> c = CR then Inr (parse_save_field r EAT_CRNL)
          else if c = quotechar d then Inr (r\<lparr>cur_state := IN_QUOTED_FIELD\<rparr>)
          else if c = escapechar d then Inr (r\<lparr>cur_state := ESCAPED_CHAR\<rparr>)
          else if c = delimiter_char d then Inr (parse_save_field r START_FIELD)
          else parse_add_char r c IN_FIELD)"

definition in_field :: "dialect \<Rightarrow> reader \<Rightarrow> char option \<Rightarrow> error + reader" where
  "in_field d r ev =
     (case ev of
        None \<Rightarrow> Inr (parse_save_field r START_RECORD)
      | Some c \<Rightarrow>
          if c = LF \<or> c = CR then Inr (parse_save_field r EAT_CRNL)
          else if c = escapechar d then Inr (r\<lparr>cur_state := ESCAPED_CHAR\<rparr>)
          else if c = delimiter_char d then Inr (parse_save_field r START_FIELD)
          else parse_add_char r c IN_FIELD)"

definition parse_process_char :: "dialect \<Rightarrow> reader \<Rightarrow> char option \<Rightarrow> error + reader" where
  "parse_process_char d r ev =
     (case cur_state r of
        START_RECORD \<Rightarrow>
          (case ev of
             None \<Rightarrow> Inr r
           | Some c \<Rightarrow>
               if c = LF \<or> c = CR then Inr (r\<lparr>cur_state := EAT_CRNL\<rparr>)
               else start_field d r ev)
      | START_FIELD \<Rightarrow> start_field d r ev
      | ESCAPED_CHAR \<Rightarrow>
          (case ev of
             None \<Rightarrow> parse_add_char r LF IN_FIELD
           | Some c \<Rightarrow>
               if c = LF \<or> c = CR then parse_add_char r c AFTER_ESCAPED_CRNL
               else parse_add_char r c IN_FIELD)
      | AFTER_ESCAPED_CRNL \<Rightarrow>
          (case ev of
             None \<Rightarrow> Inr r
           | Some c \<Rightarrow> in_field d r ev)
      | IN_FIELD \<Rightarrow> in_field d r ev
      | IN_QUOTED_FIELD \<Rightarrow>
          (case ev of
             None \<Rightarrow> Inr r
           | Some c \<Rightarrow>
               if c = escapechar d then Inr (r\<lparr>cur_state := ESCAPE_IN_QUOTED_FIELD\<rparr>)
               else if c = quotechar d then
                 Inr (r\<lparr>cur_state := (if doublequote d then QUOTE_IN_QUOTED_FIELD else IN_FIELD)\<rparr>)
               else parse_add_char r c IN_QUOTED_FIELD)
      | ESCAPE_IN_QUOTED_FIELD \<Rightarrow>
          (case ev of
             None \<Rightarrow> parse_add_char r LF IN_QUOTED_FIELD
           | Some c \<Rightarrow> parse_add_char r c IN_QUOTED_FIELD)
      | QUOTE_IN_QUOTED_FIELD \<Rightarrow>
          (case ev of
             None \<Rightarrow> Inr (parse_save_field r START_RECORD)
           | Some c \<Rightarrow>
               if c = quotechar d then parse_add_char r c IN_QUOTED_FIELD
               else if c = delimiter_char d then Inr (parse_save_field r START_FIELD)
               else if c = LF \<or> c = CR then Inr (parse_save_field r EAT_CRNL)
               else parse_add_char r c IN_FIELD)
      | EAT_CRNL \<Rightarrow>
          (case ev of
             None \<Rightarrow> Inr (r\<lparr>cur_state := START_RECORD\<rparr>)
           | Some c \<Rightarrow>
               if c = LF \<or> c = CR then Inr r
               else Inl (CsvError ''new-line character seen in unquoted field'')))"

fun process_chars :: "dialect \<Rightarrow> reader \<Rightarrow> string \<Rightarrow> error + reader" where
  "process_chars d r [] = Inr r"
| "process_chars d r (c # cs) =
     (case parse_process_char d r (Some c) of
        Inl e \<Rightarrow> Inl e
      | Inr r' \<Rightarrow> process_chars d r' cs)"

definition process_line :: "dialect \<Rightarrow> reader \<Rightarrow> string \<Rightarrow> error + reader" where
  "process_line d r line =
     (case process_chars d r line of
        Inl e \<Rightarrow> Inl e
      | Inr r' \<Rightarrow> parse_process_char d r' None)"

text \<open>
  The records of a sequence of lines. A record is complete when the reader is back in
  \<open>START_RECORD\<close> at the end of a line; at the end of the input a record that has begun
  (a field under way, or an open quote) is given as it stands.
\<close>

fun reader_rows :: "dialect \<Rightarrow> reader \<Rightarrow> string list \<Rightarrow> error + string list list" where
  "reader_rows d r [] =
     (if cur_field r \<noteq> [] \<or> cur_state r = IN_QUOTED_FIELD
        then Inr [cur_fields (parse_save_field r (cur_state r))]
      else Inr [])"
| "reader_rows d r (line # rest) =
     (case process_line d r line of
        Inl e \<Rightarrow> Inl e
      | Inr r' \<Rightarrow>
          if cur_state r' = START_RECORD
            then (case reader_rows d parse_reset rest of
                    Inl e \<Rightarrow> Inl e
                  | Inr rows \<Rightarrow> Inr (cur_fields r' # rows))
          else reader_rows d r' rest)"

text \<open>
  \<open>list(csv.DictReader(f, ...))\<close>: the first record gives the field names, empty records
  are skipped, a long record leaves its surplus under the key \<open>None\<close>, a short one gets
  \<open>None\<close> for the names it lacks.
\<close>

definition DictReader_row :: "string list \<Rightarrow> string list \<Rightarrow> 'dt row" where
  "DictReader_row fieldnames record_fields =
     (let d = dict_of (zip (map PStr fieldnames) (map PStr record_fields));
          lf = length fieldnames;
          lr = length record_fields
      in if lf < lr then dict_set d PNone (PList (map PStr (drop lf record_fields)))
         else if lr < lf then foldl (\<lambda>d key. dict_set d (PStr key) PNone) d (drop lr fieldnames)
         else d)"

definition DictReader_list :: "dialect \<Rightarrow> string \<Rightarrow> error + 'dt row list" where
  "DictReader_list d text =
     (case reader_rows d parse_reset (readlines [] text) of
        Inl e \<Rightarrow> Inl e
      | Inr [] \<Rightarrow> Inr []
      | Inr (fieldnames # rows) \<Rightarrow>
          Inr (map (DictReader_row fieldnames) (filter (\<lambda>row. row \<noteq> []) rows)))"

section \<open>cs_tools/sync/csv/syncer.py\<close>

datatype quoting_literal = Literal_ALL | Literal_MINIMAL

datatype save_strategy_literal = APPEND | OVERWRITE

text \<open>
  The fields of the \<open>CSV\<close> model, and \<open>_written_header\<close>, the private dictionary from a
  file name to whether its header has been written by this instance.
\<close>

record CSV =
  directory :: string
  delimiter :: string
  escape_character :: string
  quoting :: quoting
  date_time_format :: string
  header :: bool
  save_strategy :: save_strategy_literal
  written_header :: "string \<rightharpoonup> bool"

text \<open>
  \<^verbatim>\<open>
  @pydantic.field_validator("delimiter", "escape_character", mode="after")
  def _only_single_characters_allowed(cls, value, info):
      if len(value) > 1:
          raise ValueError(f"{info.field_name} must be a one-character string")
      return value
  \<close>
  A \<open>ValueError\<close> raised in a validator reaches the caller as the validation error of
  that field.
\<close>

definition only_single_characters_allowed :: "string \<Rightarrow> string \<Rightarrow> error + string" where
  "only_single_characters_allowed v field_name =
     (if length v > 1 then Inl (ValidationError field_name (field_name @ '' must be a one-character string''))
      else Inr v)"

definition map_to_csv_literals :: "quoting_literal \<Rightarrow> quoting" where
  "map_to_csv_literals v = (case v of Literal_ALL \<Rightarrow> QUOTE_ALL | Literal_MINIMAL \<Rightarrow> QUOTE_MINIMAL)"

text \<open>
  The field \<open>directory\<close> is a \<open>DirectoryPath\<close> or a \<open>NewPath\<close>: a directory that exists, or
  a path that is not there yet. The check reads the file system and changes nothing.
\<close>

definition directory_or_new_path :: "filesystem \<Rightarrow> string \<Rightarrow> error + string" where
  "directory_or_new_path fs path =
     (if is_file fs path then Inl (ValidationError ''directory'' ''Path does not point to a directory'')
      else Inr path)"

text \<open>
  Construction validates field by field and fails with the errors of all the fields
  that are wrong; with none, the instance starts with an empty \<open>_written_header\<close>.
\<close>

definition errors_of :: "(error + 'a) \<Rightarrow> error list" where
  "errors_of r = (case r of Inl e \<Rightarrow> [e] | Inr v \<Rightarrow> [])"

definition CSV_init ::
  "filesystem \<Rightarrow> string \<Rightarrow> string \<Rightarrow> string \<Rightarrow> quoting_literal \<Rightarrow> string \<Rightarrow> bool
     \<Rightarrow> save_strategy_literal \<Rightarrow> error list + CSV" where
  "CSV_init fs directory_arg delimiter_arg escape_character_arg quoting_arg date_time_format_arg
       header_arg save_strategy_arg =
     (let errors =
            errors_of (directory_or_new_path fs directory_arg)
            @ errors_of (only_single_characters_allowed delimiter_arg ''delimiter'')
            @ errors_of (only_single_characters_allowed escape_character_arg ''escape_character'')
      in if errors \<noteq> [] then Inl errors
         else Inr \<lparr>directory = directory_arg, delimiter = delimiter_arg,
                    escape_character = escape_character_arg,
                    quoting = map_to_csv_literals quoting_arg,
                    date_time_format = date_time_format_arg, header = header_arg,
                    save_strategy = save_strategy_arg, written_header = Map.empty\<rparr>)"

definition dialect_and_format_parameters :: "CSV \<Rightarrow> format_parameters" where
  "dialect_and_format_parameters self =
     \<lparr>p_delimiter = delimiter self,
      p_doublequote = False,
      p_escapechar = escape_character self,
      p_lineterminator = [CR, LF],
      p_quotechar = [CHR 0x22],
      p_quoting = quoting self\<rparr>"

text \<open>
  \<^verbatim>\<open>
  def load(self, filename):
      path = self.directory.joinpath(f"{filename}.csv")
      if not path.exists():
          return []
      with path.open(mode="r", newline="", encoding="utf-8") as f:
          reader = csv.DictReader(f, **self.dialect_and_format_parameters())
          data = list(reader)
      return data
  \<close>
\<close>

definition CSV_load :: "CSV \<Rightarrow> filesystem \<Rightarrow> string \<Rightarrow> error + 'dt row list" where
  "CSV_load self fs filename =
     (let path = joinpath (directory self) (filename @ ''.csv'')
      in if \<not> path_exists fs path then Inr []
         else case open_read fs path of
                Inl e \<Rightarrow> Inl e
              | Inr text \<Rightarrow>
                  (case Dialect (dialect_and_format_parameters self) of
                     Inl e \<Rightarrow> Inl e
                   | Inr d \<Rightarrow> DictReader_list d text))"

text \<open>
  \<^verbatim>\<open>
  def dump(self, filename, *, data):
      if not data:
          log.warning(f"no data to write to syncer {self}")
          return
      path = self.directory.joinpath(f"{filename}.csv")
      header = data[0].keys()
      mode = "a" if self.save_strategy == "APPEND" else "w"
      with path.open(mode=mode, newline="", encoding="utf-8") as f:
          writer = csv.DictWriter(f, fieldnames=header, **self.dialect_and_format_parameters())
          if self.header and not self._written_header.get(filename, False):
              self._written_header[filename] = True
              writer.writeheader()
          writer.writerows([sync_utils.format_datetime_values(r, dt_format=self.date_time_format) for r in data])
  \<close>
  \<open>dump\<close> gives the error it raised, if any, the instance and the file system after it.
  What was written before an error stays in the file, which the \<open>with\<close> statement closes.
\<close>

definition CSV_dump ::
  "'dt python \<Rightarrow> CSV \<Rightarrow> filesystem \<Rightarrow> string \<Rightarrow> 'dt row list \<Rightarrow> error option \<times> CSV \<times> filesystem" where
  "CSV_dump py self fs filename data =
     (case data of
        [] \<Rightarrow> (None, self, fs)
      | first # _ \<Rightarrow>
          (let path = joinpath (directory self) (filename @ ''.csv'');
               mode = (if save_strategy self = APPEND then Mode_a else Mode_w)
           in case open_write fs (directory self) path mode of
                Inl e \<Rightarrow> (Some e, self, fs)
              | Inr fs_open \<Rightarrow>
                  (case Dialect (dialect_and_format_parameters self) of
                     Inl e \<Rightarrow> (Some e, self, fs_open)
                   | Inr d \<Rightarrow>
                       (let writer = \<lparr>w_fieldnames = map fst first, w_dialect = d\<rparr>;
                            formatted = map (\<lambda>r. format_datetime_values py r (date_time_format self)) data
                        in if header self \<and> \<not> dict_get_map (written_header self) filename False
                           then (case writeheader py writer of
                                   Inl e \<Rightarrow> (Some e, self\<lparr>written_header := (written_header self)(filename \<mapsto> True)\<rparr>, fs_open)
                                 | Inr header_text \<Rightarrow>
                                     (snd (writerows py writer formatted),
                                      self\<lparr>written_header := (written_header self)(filename \<mapsto> True)\<rparr>,
                                      file_write fs_open path (header_text @ fst (writerows py writer formatted))))
                           else (snd (writerows py writer formatted), self,
                                 file_write fs_open path (fst (writerows py writer formatted)))))))"

section \<open>The json module, as \<open>dumps\<close> and \<open>loads\<close> are called\<close>

subsection \<open>Encoding\<close>

text \<open>
  \<open>json.dumps(data, ensure_ascii=...)\<close> with the default separators \<open>", "\<close> and
  \<open>": "\<close>. A string goes between double quotes, with the backslash, the double quote
  and the control characters escaped, and with \<open>ensure_ascii\<close> every character outside
  the range from the space to the tilde as well.
\<close>

definition hex_digit :: "nat \<Rightarrow> char" where
  "hex_digit n = ''0123456789abcdef'' ! n"

definition escape_u :: "char \<Rightarrow> string" where
  "escape_u c =
     [BACKSLASH, CHR ''u'', CHR ''0'', CHR ''0'',
      hex_digit ((of_char c :: nat) div 16), hex_digit ((of_char c :: nat) mod 16)]"

definition ESCAPE_DCT :: "char \<Rightarrow> string option" where
  "ESCAPE_DCT c =
     (if c = BACKSLASH then Some [BACKSLASH, BACKSLASH]
      else if c = DQUOTE then Some [BACKSLASH, DQUOTE]
      else if c = BS then Some [BACKSLASH, CHR ''b'']
      else if c = FF then Some [BACKSLASH, CHR ''f'']
      else if c = LF then Some [BACKSLASH, CHR ''n'']
      else if c = CR then Some [BACKSLASH, CHR ''r'']
      else if c = TAB then Some [BACKSLASH, CHR ''t'']
      else if (of_char c :: nat) < 0x20 then Some (escape_u c)
      else None)"

definition encode_char :: "bool \<Rightarrow> char \<Rightarrow> string" where
  "encode_char ensure_ascii c =
     (case ESCAPE_DCT c of
        Some s \<Rightarrow> s
      | None \<Rightarrow>
          if ensure_ascii \<and> \<not> (0x20 \<le> (of_char c :: nat) \<and> (of_char c :: nat) \<le> 0x7E)
          then escape_u c else [c])"

definition encode_basestring :: "bool \<Rightarrow> string \<Rightarrow> string" where
  "encode_basestring ensure_ascii s = DQUOTE # concat (map (encode_char ensure_ascii) s) @ [DQUOTE]"

definition floatstr :: "string \<Rightarrow> string" where
  "floatstr r =
     (if r = ''nan'' then ''NaN''
      else if r = ''inf'' then ''Infinity''
      else if r = ''-inf'' then ''-Infinity''
      else r)"

text \<open>The text of a key of a dictionary, or the \<open>TypeError\<close> for a key of another type.\<close>

definition key_text :: "'dt pyobj \<Rightarrow> error + string" where
  "key_text k =
     (case k of
        PStr s \<Rightarrow> Inr s
      | PFloat r \<Rightarrow> Inr (floatstr r)
      | PBool b \<Rightarrow> Inr (if b then ''true'' else ''false'')
      | PNone \<Rightarrow> Inr ''null''
      | PInt i \<Rightarrow> Inr (str_int i)
      | _ \<Rightarrow> Inl (TypeError ''keys must be str, int, float, bool or None''))"

text \<open>
  The encoder, over the structure of the object: a list is its elements between
  brackets, a dictionary its items between braces; a datetime is not serializable.
  \<open>iterencode_list\<close> and \<open>iterencode_dict\<close> give the text of the elements after the first
  bracket, each but the first after a separator.
\<close>

fun iterencode :: "bool \<Rightarrow> 'dt pyobj \<Rightarrow> error + string"
  and iterencode_list :: "bool \<Rightarrow> bool \<Rightarrow> 'dt pyobj list \<Rightarrow> error + string"
  and iterencode_dict :: "bool \<Rightarrow> bool \<Rightarrow> ('dt pyobj \<times> 'dt pyobj) list \<Rightarrow> error + string"
where
  "iterencode ensure_ascii (PStr s) = Inr (encode_basestring ensure_ascii s)"
| "iterencode ensure_ascii PNone = Inr ''null''"
| "iterencode ensure_ascii (PBool b) = Inr (if b then ''true'' else ''false'')"
| "iterencode ensure_ascii (PInt i) = Inr (str_int i)"
| "iterencode ensure_ascii (PFloat r) = Inr (floatstr r)"
| "iterencode ensure_ascii (PList lst) =
     (if lst = [] then Inr ''[]''
      else case iterencode_list ensure_ascii True lst of
             Inl e \<Rightarrow> Inl e
           | Inr body \<Rightarrow> Inr (''['' @ body @ '']''))"
| "iterencode ensure_ascii (PDict dct) =
     (if dct = [] then Inr ''{}''
      else case iterencode_dict ensure_ascii True dct of
             Inl e \<Rightarrow> Inl e
           | Inr body \<Rightarrow> Inr (''{'' @ body @ ''}''))"
| "iterencode ensure_ascii (PDateTime d) =
     Inl (TypeError ''Object of type datetime is not JSON serializable'')"
| "iterencode_list ensure_ascii first [] = Inr []"
| "iterencode_list ensure_ascii first (v # vs) =
     (case iterencode ensure_ascii v of
        Inl e \<Rightarrow> Inl e
      | Inr text \<Rightarrow>
          (case iterencode_list ensure_ascii False vs of
             Inl e \<Rightarrow> Inl e
           | Inr tail_text \<Rightarrow> Inr ((if first then [] else '', '') @ text @ tail_text)))"
| "iterencode_dict ensure_ascii first [] = Inr []"
| "iterencode_dict ensure_ascii first (item # items) =
     (case key_text (fst item) of
        Inl e \<Rightarrow> Inl e
      | Inr key \<Rightarrow>
          (case iterencode ensure_ascii (snd item) of
             Inl e \<Rightarrow> Inl e
           | Inr text \<Rightarrow>
               (case iterencode_dict ensure_ascii False items of
                  Inl e \<Rightarrow> Inl e
                | Inr tail_text \<Rightarrow>
                    Inr ((if first then [] else '', '') @ encode_basestring ensure_ascii key
                         @ '': '' @ text @ tail_text))))"

definition json_dumps :: "bool \<Rightarrow> 'dt pyobj \<Rightarrow> error + string" where
  "json_dumps ensure_ascii obj = iterencode ensure_ascii obj"

subsection \<open>Decoding\<close>

definition is_ws :: "char \<Rightarrow> bool" where
  "is_ws c = (c = CHR '' '' \<or> c = TAB \<or> c = LF \<or> c = CR)"

definition skip_ws :: "string \<Rightarrow> string" where
  "skip_ws s = dropWhile is_ws s"

definition is_digit :: "char \<Rightarrow> bool" where
  "is_digit c = (48 \<le> (of_char c :: nat) \<and> (of_char c :: nat) \<le> 57)"

definition unhex :: "char \<Rightarrow> nat option" where
  "unhex c =
     (let n = (of_char c :: nat)
      in if 48 \<le> n \<and> n \<le> 57 then Some (n - 48)
         else if 97 \<le> n \<and> n \<le> 102 then Some (n - 87)
         else if 65 \<le> n \<and> n \<le> 70 then Some (n - 55)
         else None)"

text \<open>
  The four hexadecimal digits after \<open>\u\<close>. A code point of 256 or more (and with it
  every surrogate pair) has no character in this model.
\<close>

definition decode_uXXXX :: "string \<Rightarrow> error + char" where
  "decode_uXXXX s =
     (case map unhex (take 4 s) of
        [Some a, Some b, Some c, Some d] \<Rightarrow>
          (if a = 0 \<and> b = 0 then Inr (char_of (16 * c + d))
           else Inl (Unrepresentable ''code point above 255''))
      | _ \<Rightarrow> Inl (JSONDecodeError ''Invalid uXXXX escape''))"

definition BACKSLASH_table :: "char \<Rightarrow> char option" where
  "BACKSLASH_table esc =
     (if esc = DQUOTE then Some DQUOTE
      else if esc = BACKSLASH then Some BACKSLASH
      else if esc = CHR ''/'' then Some (CHR ''/'')
      else if esc = CHR ''b'' then Some BS
      else if esc = CHR ''f'' then Some FF
      else if esc = CHR ''n'' then Some LF
      else if esc = CHR ''r'' then Some CR
      else if esc = CHR ''t'' then Some TAB
      else None)"

text \<open>
  \<open>scanstring\<close>, from the character after the opening quote: the string read so far, and
  the input. It gives the string and the input after the closing quote.
\<close>

fun scanstring :: "string \<Rightarrow> string \<Rightarrow> error + (string \<times> string)" where
  "scanstring acc [] = Inl (JSONDecodeError ''Unterminated string starting at'')"
| "scanstring acc (c # cs) =
     (if c = DQUOTE then Inr (acc, cs)
      else if c = BACKSLASH then
        (case cs of
           [] \<Rightarrow> Inl (JSONDecodeError ''Unterminated string starting at'')
         | esc # cs' \<Rightarrow>
             if esc \<noteq> CHR ''u'' then
               (case BACKSLASH_table esc of
                  None \<Rightarrow> Inl (JSONDecodeError ''Invalid escape'')
                | Some ch \<Rightarrow> scanstring (acc @ [ch]) cs')
             else
               (case decode_uXXXX cs' of
                  Inl e \<Rightarrow> Inl e
                | Inr ch \<Rightarrow> scanstring (acc @ [ch]) (drop 4 cs')))
      else if (of_char c :: nat) < 0x20 then Inl (JSONDecodeError ''Invalid control character at'')
      else scanstring (acc @ [c]) cs)"

text \<open>
  The number pattern \<open>(-?(?:0|[1-9]\d*))(\.\d+)?([eE][-+]?\d+)?\<close>: the three groups and the
  input after the match, or \<open>None\<close> when there is no match.
\<close>

definition match_integer :: "string \<Rightarrow> (string \<times> string) option" where
  "match_integer s =
     (let sign = (if s \<noteq> [] \<and> hd s = CHR ''-'' then ''-'' else []);
          s1 = drop (length sign) s
      in case s1 of
           [] \<Rightarrow> None
         | c # cs \<Rightarrow>
             if c = CHR ''0'' then Some (sign @ [c], cs)
             else if is_digit c then Some (sign @ c # takeWhile is_digit cs, dropWhile is_digit cs)
             else None)"

definition match_frac :: "string \<Rightarrow> string \<times> string" where
  "match_frac s =
     (case s of
        c # d # cs \<Rightarrow>
          if c = CHR ''.'' \<and> is_digit d
          then (c # d # takeWhile is_digit cs, dropWhile is_digit cs)
          else ([], s)
      | _ \<Rightarrow> ([], s))"

definition match_exp :: "string \<Rightarrow> string \<times> string" where
  "match_exp s =
     (case s of
        [] \<Rightarrow> ([], s)
      | e # s1 \<Rightarrow>
          if e = CHR ''e'' \<or> e = CHR ''E'' then
            (let sign = (if s1 \<noteq> [] \<and> (hd s1 = CHR ''-'' \<or> hd s1 = CHR ''+'') then [hd s1] else []);
                 s2 = drop (length sign) s1
             in if s2 \<noteq> [] \<and> is_digit (hd s2)
                then (e # sign @ takeWhile is_digit s2, dropWhile is_digit s2)
                else ([], s))
          else ([], s))"

definition match_number :: "string \<Rightarrow> (string \<times> string \<times> string \<times> string) option" where
  "match_number s =
     (case match_integer s of
        None \<Rightarrow> None
      | Some (integer, s1) \<Rightarrow>
          (let (frac, s2) = match_frac s1;
               (exp, s3) = match_exp s2
           in Some (integer, frac, exp, s3)))"

definition nat_of_digits :: "string \<Rightarrow> nat" where
  "nat_of_digits ds = foldl (\<lambda>n c. 10 * n + ((of_char c :: nat) - 48)) 0 ds"

definition parse_int :: "string \<Rightarrow> int" where
  "parse_int s =
     (if s \<noteq> [] \<and> hd s = CHR ''-'' then - int (nat_of_digits (tl s)) else int (nat_of_digits s))"

text \<open>
  \<open>scan_once\<close> with the loops of \<open>JSONArray\<close> and \<open>JSONObject\<close>. The first argument bounds
  the number of calls; \<open>loads\<close> starts with more than any text needs, every other call
  reading at least one character.
\<close>

fun scan_once :: "'dt python \<Rightarrow> nat \<Rightarrow> string \<Rightarrow> error + ('dt pyobj \<times> string)"
  and JSONArray_loop ::
    "'dt python \<Rightarrow> nat \<Rightarrow> 'dt pyobj list \<Rightarrow> string \<Rightarrow> error + ('dt pyobj \<times> string)"
  and JSONObject_loop ::
    "'dt python \<Rightarrow> nat \<Rightarrow> ('dt pyobj \<times> 'dt pyobj) list \<Rightarrow> string \<Rightarrow> error + ('dt pyobj \<times> string)"
where
  "scan_once py 0 s = Inl RecursionError"
| "scan_once py (Suc n) s =
     (case s of
        [] \<Rightarrow> Inl (JSONDecodeError ''Expecting value'')
      | nextchar # rest \<Rightarrow>
          if nextchar = DQUOTE then
            (case scanstring [] rest of
               Inl e \<Rightarrow> Inl e
             | Inr (str, rest') \<Rightarrow> Inr (PStr str, rest'))
          else if nextchar = CHR ''{'' then
            (let s1 = skip_ws rest
             in if s1 \<noteq> [] \<and> hd s1 = CHR ''}'' then Inr (PDict [], tl s1)
                else if s1 \<noteq> [] \<and> hd s1 = DQUOTE then JSONObject_loop py n [] (tl s1)
                else Inl (JSONDecodeError ''Expecting property name enclosed in double quotes''))
          else if nextchar = CHR ''['' then
            (let s1 = skip_ws rest
             in if s1 \<noteq> [] \<and> hd s1 = CHR '']'' then Inr (PList [], tl s1)
                else JSONArray_loop py n [] s1)
          else if take 4 s = ''null'' then Inr (PNone, drop 4 s)
          else if take 4 s = ''true'' then Inr (PBool True, drop 4 s)
          else if take 5 s = ''false'' then Inr (PBool False, drop 5 s)
          else
            (case match_number s of
               Some (integer, frac, exp, rest') \<Rightarrow>
                 if frac \<noteq> [] \<or> exp \<noteq> []
                 then Inr (PFloat (float_of_literal py (integer @ frac @ exp)), rest')
                 else Inr (PInt (parse_int integer), rest')
             | None \<Rightarrow>
                 if take 3 s = ''NaN'' then Inr (PFloat ''nan'', drop 3 s)
                 else if take 8 s = ''Infinity'' then Inr (PFloat ''inf'', drop 8 s)
                 else if take 9 s = ''-Infinity'' then Inr (PFloat ''-inf'', drop 9 s)
                 else Inl (JSONDecodeError ''Expecting value'')))"
| "JSONArray_loop py 0 vs s = Inl RecursionError"
| "JSONArray_loop py (Suc n) vs s =
     (case scan_once py n s of
        Inl e \<Rightarrow> Inl e
      | Inr (v, rest) \<Rightarrow>
          (let s1 = skip_ws rest
           in if s1 \<noteq> [] \<and> hd s1 = CHR '']'' then Inr (PList (vs @ [v]), tl s1)
              else if s1 \<noteq> [] \<and> hd s1 = CHR '','' then JSONArray_loop py n (vs @ [v]) (skip_ws (tl s1))
              else Inl (JSONDecodeError ''Expecting , delimiter'')))"
| "JSONObject_loop py 0 pairs s = Inl RecursionError"
| "JSONObject_loop py (Suc n) pairs s =
     (case scanstring [] s of
        Inl e \<Rightarrow> Inl e
      | Inr (key, rest) \<Rightarrow>
          (let s1 = skip_ws rest
           in if \<not> (s1 \<noteq> [] \<and> hd s1 = CHR '':'') then Inl (JSONDecodeError ''Expecting : delimiter'')
              else case scan_once py n (skip_ws (tl s1)) of
                     Inl e \<Rightarrow> Inl e
                   | Inr (v, rest') \<Rightarrow>
                       (let s2 = skip_ws rest'
                        in if s2 \<noteq> [] \<and> hd s2 = CHR ''}''
                             then Inr (PDict (dict_of (pairs @ [(PStr key, v)])), tl s2)
                           else if \<not> (s2 \<noteq> [] \<and> hd s2 = CHR '','')
                             then Inl (JSONDecodeError ''Expecting , delimiter'')
                           else (let s3 = skip_ws (tl s2)
                                 in if s3 \<noteq> [] \<and> hd s3 = DQUOTE
                                      then JSONObject_loop py n (pairs @ [(PStr key, v)]) (tl s3)
                                    else Inl (JSONDecodeError
                                                ''Expecting property name enclosed in double quotes'')))))"

text \<open>
  \<open>json.loads\<close>: white space, one value, white space, and nothing more.
\<close>

definition json_loads :: "'dt python \<Rightarrow> string \<Rightarrow> error + 'dt pyobj" where
  "json_loads py s =
     (case scan_once py (Suc (2 * length s)) (skip_ws s) of
        Inl e \<Rightarrow> Inl e
      | Inr (obj, rest) \<Rightarrow>
          if skip_ws rest = [] then Inr obj else Inl (JSONDecodeError ''Extra data''))"

section \<open>cs_tools/sync/json/syncer.py\<close>

datatype encoding_literal = UTF_8

record JSON =
  json_directory :: string
  encoding :: "encoding_literal option"

text \<open>
  \<^verbatim>\<open>
  @pydantic.field_validator("directory", mode="after")
  def _ensure_directory_exists(cls, value):
      if value.is_file():
          raise ValueError(f"{value.resolve().as_posix()} is a file, not a directory.")
      if not value.exists():
          log.warning(...)
          value.mkdir(parents=True, exist_ok=True)
      return value
  \<close>
  \<open>mkdir\<close> makes the directory (and the ancestors it lacks, which nothing here looks at).
\<close>

definition ensure_directory_exists :: "filesystem \<Rightarrow> string \<Rightarrow> error + (string \<times> filesystem)" where
  "ensure_directory_exists fs path =
     (if is_file fs path
        then Inl (ValidationError ''directory'' (path @ '' is a file, not a directory.''))
      else if \<not> path_exists fs path then Inr (path, fs\<lparr>dirs := path # dirs fs\<rparr>)
      else Inr (path, fs))"

definition JSON_init :: "filesystem \<Rightarrow> string \<Rightarrow> encoding_literal option \<Rightarrow> error + (JSON \<times> filesystem)" where
  "JSON_init fs directory_arg encoding_arg =
     (case ensure_directory_exists fs directory_arg of
        Inl e \<Rightarrow> Inl e
      | Inr (path, fs') \<Rightarrow> Inr (\<lparr>json_directory = path, encoding = encoding_arg\<rparr>, fs'))"

definition make_filename :: "JSON \<Rightarrow> string \<Rightarrow> string" where
  "make_filename self filename = joinpath (json_directory self) (filename @ ''.json'')"

text \<open>
  \<^verbatim>\<open>
  def load(self, filename):
      text = self.make_filename(filename).read_text(encoding=self.encoding)
      data = json.loads(text) if text else []
      return data

  def dump(self, filename, *, data):
      if not data:
          log.warning(f"no data to write to syncer {self}")
          return
      text = json.dumps(data, ensure_ascii=True if self.encoding is None else False)
      self.make_filename(filename).write_text(text, encoding=self.encoding)
  \<close>
\<close>

definition JSON_load :: "'dt python \<Rightarrow> JSON \<Rightarrow> filesystem \<Rightarrow> string \<Rightarrow> error + 'dt pyobj" where
  "JSON_load py self fs filename =
     (case read_text fs (make_filename self filename) of
        Inl e \<Rightarrow> Inl e
      | Inr text \<Rightarrow> if text = [] then Inr (PList []) else json_loads py text)"

definition JSON_dump ::
  "'dt python \<Rightarrow> JSON \<Rightarrow> filesystem \<Rightarrow> string \<Rightarrow> 'dt row list \<Rightarrow> error option \<times> filesystem" where
  "JSON_dump py self fs filename data =
     (if data = [] then (None, fs)
      else case json_dumps (encoding self = None) (PList (map PDict data)) of
             Inl e \<Rightarrow> (Some e, fs)
           | Inr text \<Rightarrow>
               (case write_text py fs (json_directory self) (make_filename self filename) text of
                  Inl e \<Rightarrow> (Some e, fs)
                | Inr fs' \<Rightarrow> (None, fs')))"

section \<open>The text a dump writes\<close>

text \<open>
  The line of the header for the field names of a \<open>dump\<close>, and the line of a record:
  the text of its formatted values, in the order of the field names.
\<close>

definition header_line :: "'dt python \<Rightarrow> dialect \<Rightarrow> 'dt pyobj list \<Rightarrow> string" where
  "header_line py d fieldnames = writerow d (map (field_text py) fieldnames)"

definition record_line :: "'dt python \<Rightarrow> dialect \<Rightarrow> string \<Rightarrow> 'dt pyobj list \<Rightarrow> 'dt row \<Rightarrow> string" where
  "record_line py d dt_format fieldnames r =
     writerow d
       (map (\<lambda>key. field_text py (dict_get (format_datetime_values py r dt_format) key (PStr [])))
          fieldnames)"

text \<open>Every key of every record is one of the field names.\<close>

definition keys_within :: "'dt pyobj list \<Rightarrow> 'dt row list \<Rightarrow> bool" where
  "keys_within fieldnames data = list_all (\<lambda>r. list_all (\<lambda>k. k \<in> set fieldnames) (map fst r)) data"

text \<open>The text of a file, empty when the file is not there.\<close>

definition content :: "filesystem \<Rightarrow> string \<Rightarrow> string" where
  "content fs path = (case files fs path of None \<Rightarrow> [] | Some text \<Rightarrow> text)"

section \<open>Sample values\<close>

text \<open>
  A runtime whose datetimes are numbers and format to one fixed text, a file system with
  the one directory \<open>out\<close>, and syncers on it with the default options of the source.
\<close>

definition sample_python :: "nat python" where
  "sample_python =
     \<lparr>strftime = (\<lambda>dt_format d. ''2024-01-31 12:00:00''),
      str_other = (\<lambda>v. ''<object>''),
      float_of_literal = (\<lambda>literal. literal),
      linesep = [LF]\<rparr>"

definition sample_fs :: filesystem where
  "sample_fs = \<lparr>dirs = [''out''], files = Map.empty\<rparr>"

definition sample_csv :: "save_strategy_literal \<Rightarrow> CSV" where
  "sample_csv strategy =
     \<lparr>directory = ''out'', delimiter = ''|'', escape_character = [BACKSLASH],
      quoting = QUOTE_MINIMAL, date_time_format = ''%Y-%m-%d %H:%M:%S'', header = True,
      save_strategy = strategy, written_header = Map.empty\<rparr>"

definition sample_dialect :: dialect where
  "sample_dialect =
     \<lparr>delimiter_char = CHR ''|'', doublequote = False, escapechar = BACKSLASH,
      lineterminator = [CR, LF], quotechar = DQUOTE, quoting_policy = QUOTE_MINIMAL\<rparr>"

definition sample_json :: JSON where
  "sample_json = \<lparr>json_directory = ''out'', encoding = None\<rparr>"

section \<open>The reader, fed the text itself\<close>

text \<open>
  For the proofs: the reader of \<open>reader_rows\<close> without the list of lines in between. It
  takes the characters of the text in order, and the end of a line after every \<open>\n\<close>
  and after every \<open>\r\<close> that no \<open>\n\<close> follows; \<open>mid\<close> says that the line under way is not
  empty. \<open>feed_reader_rows\<close> below relates it to \<open>reader_rows\<close> on \<open>readlines\<close>.
\<close>

definition line_ends :: "char \<Rightarrow> string \<Rightarrow> bool" where
  "line_ends c cs = (c = LF \<or> (c = CR \<and> (case cs of [] \<Rightarrow> True | c' # _ \<Rightarrow> c' \<noteq> LF)))"

definition end_of_line :: "reader \<Rightarrow> (error + string list list) \<Rightarrow> (error + string list list) \<Rightarrow> error + string list list" where
  "end_of_line r after_record otherwise =
     (if cur_state r = START_RECORD
        then (case after_record of Inl e \<Rightarrow> Inl e | Inr rows \<Rightarrow> Inr (cur_fields r # rows))
      else otherwise)"

fun feed :: "dialect \<Rightarrow> reader \<Rightarrow> bool \<Rightarrow> string \<Rightarrow> error + string list list" where
  "feed d r mid [] =
     (if mid then
        (case parse_process_char d r None of
           Inl e \<Rightarrow> Inl e
         | Inr r' \<Rightarrow> end_of_line r' (Inr []) (reader_rows d r' []))
      else reader_rows d r [])"
| "feed d r mid (c # cs) =
     (case parse_process_char d r (Some c) of
        Inl e \<Rightarrow> Inl e
      | Inr r1 \<Rightarrow>
          if line_ends c cs then
            (case parse_process_char d r1 None of
               Inl e \<Rightarrow> Inl e
             | Inr r2 \<Rightarrow> end_of_line r2 (feed d parse_reset False cs) (feed d r2 False cs))
          else feed d r1 True cs)"

text \<open>
  A dialect as the syncer builds it when its delimiter and escape character are single
  characters that differ from each other, from the quote and from both newline
  characters.
\<close>

definition well_separated :: "dialect \<Rightarrow> bool" where
  "well_separated d =
     (\<not> doublequote d \<and> lineterminator d = [CR, LF]
      \<and> distinct [delimiter_char d, escapechar d, quotechar d, CR, LF])"

abbreviation reader_at :: "parser_state \<Rightarrow> string \<Rightarrow> string list \<Rightarrow> reader" where
  "reader_at s fld saved \<equiv> \<lparr>cur_state = s, cur_field = fld, cur_fields = saved\<rparr>"

abbreviation escaped :: "dialect \<Rightarrow> string \<Rightarrow> string" where
  "escaped d fld \<equiv> concat (map (\<lambda>c. fst (write_char d c)) fld)"

section \<open>Properties of chunks\<close>

lemma chunks_loop_Nil [simp]: "chunks_loop [] n = []"
  by (subst chunks_loop.simps) simp

lemma chunks_loop_zero [simp]: "chunks_loop xs 0 = []"
  by (subst chunks_loop.simps) simp

lemma chunks_loop_step:
  "0 < n \<Longrightarrow> xs \<noteq> [] \<Longrightarrow> chunks_loop xs n = take n xs # chunks_loop (drop n xs) n"
  by (subst chunks_loop.simps) simp

lemma concat_chunks_loop: "0 < n \<Longrightarrow> concat (chunks_loop xs n) = xs"
proof (induction xs n rule: chunks_loop.induct)
  case (1 xs n)
  show ?case
  proof (cases "xs = []")
    case True
    then show ?thesis by simp
  next
    case False
    with "1.prems" have "take n xs \<noteq> []" by simp
    with "1.IH" "1.prems" have "concat (chunks_loop (drop n xs) n) = drop n xs" by simp
    with False "1.prems" show ?thesis by (simp add: chunks_loop_step)
  qed
qed

lemma chunks_loop_sizes:
  "0 < n \<Longrightarrow> c \<in> set (chunks_loop xs n) \<Longrightarrow> c \<noteq> [] \<and> length c \<le> n"
proof (induction xs n rule: chunks_loop.induct)
  case (1 xs n)
  show ?case
  proof (cases "xs = []")
    case True
    with "1.prems" show ?thesis by simp
  next
    case False
    with "1.prems" have ne: "take n xs \<noteq> []" by simp
    from False "1.prems" have "c = take n xs \<or> c \<in> set (chunks_loop (drop n xs) n)"
      by (simp add: chunks_loop_step)
    then show ?thesis
    proof
      assume "c = take n xs"
      with ne show ?thesis by simp
    next
      assume "c \<in> set (chunks_loop (drop n xs) n)"
      with "1.IH" ne "1.prems" show ?thesis by simp
    qed
  qed
qed

lemma chunks_loop_full:
  "0 < n \<Longrightarrow> c \<in> set (butlast (chunks_loop xs n)) \<Longrightarrow> length c = n"
proof (induction xs n rule: chunks_loop.induct)
  case (1 xs n)
  show ?case
  proof (cases "xs = []")
    case True
    with "1.prems" show ?thesis by simp
  next
    case False
    with "1.prems" have ne: "take n xs \<noteq> []" by simp
    show ?thesis
    proof (cases "chunks_loop (drop n xs) n = []")
      case True
      with False "1.prems" show ?thesis by (simp add: chunks_loop_step)
    next
      case rest: False
      then have "drop n xs \<noteq> []" by auto
      then have full: "length (take n xs) = n" by simp
      from False "1.prems" rest
      have "c = take n xs \<or> c \<in> set (butlast (chunks_loop (drop n xs) n))"
        by (simp add: chunks_loop_step)
      then show ?thesis
      proof
        assume "c = take n xs"
        with full show ?thesis by simp
      next
        assume "c \<in> set (butlast (chunks_loop (drop n xs) n))"
        with "1.IH" ne "1.prems" show ?thesis by simp
      qed
    qed
  qed
qed

lemma chunks_loop_range7:
  "chunks_loop [0, 1, 2, 3, 4, 5, 6 :: int] 3 = [[0, 1, 2], [3, 4, 5], [6]]"
proof -
  have three: "(3::nat) = Suc (Suc (Suc 0))" by simp
  show ?thesis
    unfolding three by (simp add: chunks_loop_step)
qed

text \<open>
  Claim C9. For every finite sequence and every batch size \<open>n \<ge> 1\<close>, \<open>chunks\<close> yields
  groups of exactly \<open>n\<close> elements, only the last one possibly shorter (and never empty),
  whose concatenation is the input; \<open>chunks(range(7), n=3)\<close> yields \<open>(0,1,2), (3,4,5), (6,)\<close>;
  for every \<open>n < 1\<close> it raises \<open>ValueError\<close>.
\<close>

theorem chunks_groups:
  "(1 \<le> n \<longrightarrow>
      (\<exists>cs. chunks xs n = Inr cs \<and> concat cs = xs
          \<and> (\<forall>c \<in> set (butlast cs). length c = nat n)
          \<and> (\<forall>c \<in> set cs. c \<noteq> [] \<and> length c \<le> nat n)))
   \<and> (n < 1 \<longrightarrow> chunks xs n = Inl (ValueError ''n must be at least one''))
   \<and> chunks [0, 1, 2, 3, 4, 5, 6 :: int] 3 = Inr [[0, 1, 2], [3, 4, 5], [6]]"
proof (intro conjI impI)
  assume n: "1 \<le> n"
  then have pos: "0 < nat n" by simp
  from n have "chunks xs n = Inr (chunks_loop xs (nat n))" by (simp add: chunks_def)
  moreover from pos have "concat (chunks_loop xs (nat n)) = xs" by (rule concat_chunks_loop)
  moreover from pos have "\<forall>c \<in> set (butlast (chunks_loop xs (nat n))). length c = nat n"
    by (blast dest: chunks_loop_full)
  moreover from pos have "\<forall>c \<in> set (chunks_loop xs (nat n)). c \<noteq> [] \<and> length c \<le> nat n"
    by (blast dest: chunks_loop_sizes)
  ultimately show "\<exists>cs. chunks xs n = Inr cs \<and> concat cs = xs
          \<and> (\<forall>c \<in> set (butlast cs). length c = nat n)
          \<and> (\<forall>c \<in> set cs. c \<noteq> [] \<and> length c \<le> nat n)"
    by blast
next
  assume "n < 1"
  then show "chunks xs n = Inl (ValueError ''n must be at least one'')"
    by (simp add: chunks_def)
next
  show "chunks [0, 1, 2, 3, 4, 5, 6 :: int] 3 = Inr [[0, 1, 2], [3, 4, 5], [6]]"
    by (simp add: chunks_def chunks_loop_range7)
qed

theorem chunks_groups_witness:
  "chunks [10, 20, 30, 40, 50 :: nat] 2 = Inr [[10, 20], [30, 40], [50]]
   \<and> chunks [10, 20, 30, 40, 50 :: nat] 0 = Inl (ValueError ''n must be at least one'')"
proof -
  have two: "(2::nat) = Suc (Suc 0)" by simp
  have run: "chunks_loop [10, 20, 30, 40, 50 :: nat] 2 = [[10, 20], [30, 40], [50]]"
    unfolding two by (simp add: chunks_loop_step)
  from chunks_groups [of 2 "[10, 20, 30, 40, 50 :: nat]"]
  obtain cs where "chunks [10, 20, 30, 40, 50 :: nat] 2 = Inr cs"
    and "concat cs = [10, 20, 30, 40, 50]" by auto
  moreover have "chunks [10, 20, 30, 40, 50 :: nat] 2 = Inr [[10, 20], [30, 40], [50]]"
    by (simp add: chunks_def run)
  moreover from chunks_groups [of 0 "[10, 20, 30, 40, 50 :: nat]"]
  have "chunks [10, 20, 30, 40, 50 :: nat] 0 = Inl (ValueError ''n must be at least one'')"
    by simp
  ultimately show ?thesis by simp
qed

section \<open>Properties of State\<close>

text \<open>
  Claim C10, as stated, at the key \<open>_state\<close>: the assignment stores 5 in the dictionary
  under \<open>_state\<close>, and the read gives the dictionary, not 5.
\<close>

theorem State_set_get_counterexample:
  "get_attribute [] ''State'' (set_attribute (State_init None) ''_state'' (5::int)) ''_state''
     \<noteq> Inr (Stored 5)"
  by (simp add: get_attribute_def ordinary_lookup_def)

text \<open>
  Claim C10, amended. For every State object and every key that the ordinary lookup
  does not resolve (any key but \<open>_state\<close>, the names the class defines and the names of
  \<open>object\<close>): after setting the attribute to a value, getting it returns exactly that
  value; getting an attribute that is not in the dictionary raises \<open>AttributeError\<close>
  with the message that names the key, and returns no default.
\<close>

theorem State_set_get:
  assumes "key \<noteq> ''_state''"
    and "key \<notin> set State_class_names \<union> set object_names"
  shows "get_attribute object_names cls_name (set_attribute self key v) key = Inr (Stored v)
    \<and> (state_dict self key = None \<longrightarrow>
         get_attribute object_names cls_name self key =
           Inl (AttributeError
                  ([CHR 0x27] @ cls_name @ [CHR 0x27] @ '' object has no attribute ''
                   @ [CHR 0x27] @ key @ [CHR 0x27])))"
  using assms
  by (simp add: get_attribute_def ordinary_lookup_def set_attribute_def State_setattr_def
      State_getattr_def)

theorem State_set_get_witness:
  "get_attribute [''__class__''] ''State'' (set_attribute (State_init None) ''token'' (7::int)) ''token''
     = Inr (Stored 7)
   \<and> get_attribute [''__class__''] ''State'' (State_init None :: int State) ''token''
     = Inl (AttributeError
              ([CHR 0x27] @ ''State'' @ [CHR 0x27] @ '' object has no attribute ''
               @ [CHR 0x27] @ ''token'' @ [CHR 0x27]))"
proof -
  have a: "''token'' \<noteq> ''_state''" by simp
  have b: "''token'' \<notin> set State_class_names \<union> set [''__class__'']"
    by (simp add: State_class_names_def)
  have c: "state_dict (State_init None :: int State) ''token'' = None"
    by (simp add: State_init_def)
  from State_set_get [OF a b, where cls_name = "''State''" and self = "State_init None :: int State"
      and v = 7] c
  show ?thesis by simp
qed

section \<open>The git configuration commands on an HTTP error\<close>

lemma try_call_error:
  "try_call (Inl e) =
     (None,
      [Print (''[b red]Error creating the configuration: '' @ response_str e @ ''.''),
       Print (''[b red]'' @ response_content e @ ''.'')])"
  by (simp add: try_call_def)

text \<open>
  Claim C8, on the code. When the remote call raises \<open>HTTPStatusError\<close>, each of the four
  commands catches it and prints the response and its content, and does not raise it
  again; but none of them returns there: each goes on to read \<open>r\<close>, which the failed call
  never bound, and ends with \<open>UnboundLocalError\<close>.
\<close>

theorem config_commands_http_error:
  "(create_api \<lparr>repository_url = url, username = user, access_token = token,
                 org_identifier = org, branch_names = branches, commit_branch_name = commit_branch,
                 enable_guid_mapping = guid_mapping, configuration_branch_name = config_branch\<rparr>
      = Inl err_create \<longrightarrow>
    config_create create_api (Some url) (Some user) (Some token) org branches commit_branch
        guid_mapping config_branch
      = (switch_org org @
         [Print (''[b red]Error creating the configuration: '' @ response_str err_create @ ''.''),
          Print (''[b red]'' @ response_content err_create @ ''.'')],
         Some (UnboundLocalError ''r'')))
   \<and> (update_api \<lparr>u_username = user', u_access_token = token', u_org_identifier = org,
                   u_branch_names = branches, u_commit_branch_name = commit_branch,
                   u_enable_guid_mapping = guid_mapping,
                   u_configuration_branch_name = config_branch\<rparr>
      = Inl err_update \<longrightarrow>
    config_update update_api user' token' org branches commit_branch guid_mapping config_branch
      = (switch_org org @
         [Print (''[b red]Error creating the configuration: '' @ response_str err_update @ ''.''),
          Print (''[b red]'' @ response_content err_update @ ''.'')],
         Some (UnboundLocalError ''r'')))
   \<and> (search_api org_ids = Inl err_search \<longrightarrow>
    config_search search_api org org_ids
      = (switch_org org @
         [Print (''[b red]Error creating the configuration: '' @ response_str err_search @ ''.''),
          Print (''[b red]'' @ response_content err_search @ ''.'')],
         Some (UnboundLocalError ''r'')))
   \<and> (delete_api cluster_level = Inl err_delete \<longrightarrow>
    snd (config_delete delete_api org cluster_level) = Some (UnboundLocalError ''r'')
    \<and> Print (''[b red]Error creating the configuration: '' @ response_str err_delete @ ''.'')
        \<in> set (fst (config_delete delete_api org cluster_level))
    \<and> Print (''[b red]'' @ response_content err_delete @ ''.'')
        \<in> set (fst (config_delete delete_api org cluster_level)))"
  by (simp add: config_create_def config_update_def config_search_def config_delete_def
      try_call_error Let_def)

theorem config_commands_http_error_witness:
  "config_search
      (\<lambda>ids. Inl \<lparr>response_str = ''<Response [404 Not Found]>'',
                   response_content = ''no configuration'', response_json = []\<rparr>)
      None None
    = ([Print ''[b red]Error creating the configuration: <Response [404 Not Found]>.'',
        Print ''[b red]no configuration.''],
       Some (UnboundLocalError ''r''))"
proof -
  have raised:
    "(\<lambda>ids :: string list option.
        Inl \<lparr>response_str = ''<Response [404 Not Found]>'',
             response_content = ''no configuration'',
             response_json = [] :: config list\<rparr> :: config list response + config list response)
       None
     = Inl \<lparr>response_str = ''<Response [404 Not Found]>'',
            response_content = ''no configuration'', response_json = []\<rparr>"
    by simp
  from config_commands_http_error [THEN conjunct2, THEN conjunct2, THEN conjunct1, rule_format,
      OF raised, of None]
  show ?thesis by (simp add: switch_org_def)
qed

section \<open>Dictionaries\<close>

lemma map_of_dict_set: "map_of (dict_set d k v) = (map_of d)(k \<mapsto> v)"
  by (induction d) (auto simp: fun_eq_iff)

lemma keys_dict_set: "fst ` set (dict_set d k v) = insert k (fst ` set d)"
  by (induction d) auto

lemma map_of_foldl_dict_set:
  "map_of (foldl (\<lambda>d item. dict_set d (fst item) (snd item)) d ps) = map_of d ++ map_of (rev ps)"
proof (induction ps arbitrary: d)
  case Nil
  then show ?case by simp
next
  case (Cons p ps)
  have "map_of (rev ps @ [p]) = map_of [p] ++ map_of (rev ps)"
    by (rule map_of_append)
  then show ?case
    by (cases p) (simp add: Cons.IH map_of_dict_set map_add_upd_left fun_eq_iff map_add_def
        split: option.splits)
qed

lemma keys_foldl_dict_set:
  "fst ` set (foldl (\<lambda>d item. dict_set d (fst item) (snd item)) d ps)
     = fst ` set d \<union> fst ` set ps"
  by (induction ps arbitrary: d) (simp_all add: keys_dict_set)

lemma map_of_zip_same: "map_of (zip ks ks) k = (if k \<in> set ks then Some k else None)"
  by (induction ks) auto

lemma dict_of_zip_same_get:
  "k \<in> set ks \<Longrightarrow> dict_get (dict_of (zip ks ks)) k dflt = k"
proof -
  assume k: "k \<in> set ks"
  have "map_of (rev (zip ks ks)) k = Some k"
  proof -
    have "rev (zip ks ks) = zip (rev ks) (rev ks)" by (simp add: zip_rev)
    with k show ?thesis by (simp add: map_of_zip_same)
  qed
  then show ?thesis
    by (simp add: dict_get_def dict_of_def map_of_foldl_dict_set map_add_def)
qed

lemma fst_set_zip_same: "fst ` set (zip ks ks) = set ks"
  by (induction ks) auto

lemma dict_of_zip_same_keys: "fst ` set (dict_of (zip ks ks)) = set ks"
  by (simp add: dict_of_def keys_foldl_dict_set fst_set_zip_same)

section \<open>What the CSV writer writes\<close>

lemma format_datetime_values_keys [simp]:
  "map fst (format_datetime_values py r dt_format) = map fst r"
  by (simp add: format_datetime_values_def comp_def)

lemma writeheader_text:
  "writeheader py \<lparr>w_fieldnames = ks, w_dialect = d\<rparr> = Inr (header_line py d ks)"
proof -
  have "\<not> list_ex (\<lambda>k. k \<notin> set ks) (map fst (dict_of (zip ks ks)))"
    using dict_of_zip_same_keys [of ks] by (simp add: list_ex_iff)
  moreover have "map (\<lambda>key. dict_get (dict_of (zip ks ks)) key (PStr [])) ks = ks"
    by (simp add: map_idI dict_of_zip_same_get)
  ultimately show ?thesis
    by (simp add: writeheader_def DictWriter_writerow_def dict_to_list_def header_line_def)
qed

lemma writerows_text:
  "keys_within ks data \<Longrightarrow>
   writerows py \<lparr>w_fieldnames = ks, w_dialect = d\<rparr>
       (map (\<lambda>r. format_datetime_values py r dt_format) data)
     = (concat (map (record_line py d dt_format ks) data), None)"
proof (induction data)
  case Nil
  then show ?case by simp
next
  case (Cons r data)
  from Cons.prems have fit: "\<not> list_ex (\<lambda>k. k \<notin> set ks) (map fst r)"
    and rest: "keys_within ks data"
    by (auto simp: keys_within_def list_ex_iff list_all_iff)
  from fit have "DictWriter_writerow py \<lparr>w_fieldnames = ks, w_dialect = d\<rparr>
       (format_datetime_values py r dt_format) = Inr (record_line py d dt_format ks r)"
    by (simp add: DictWriter_writerow_def dict_to_list_def record_line_def comp_def)
  with Cons.IH [OF rest] show ?case by simp
qed

section \<open>What a dump leaves in the file\<close>

lemma dump_open_append:
  assumes "directory self \<in> set (dirs fs)"
    and "joinpath (directory self) (name @ ''.csv'') \<notin> set (dirs fs)"
  shows "open_write fs (directory self) (joinpath (directory self) (name @ ''.csv'')) Mode_a
     = Inr (fs\<lparr>files := (files fs)(joinpath (directory self) (name @ ''.csv'')
              \<mapsto> content fs (joinpath (directory self) (name @ ''.csv'')))\<rparr>)"
  using assms by (simp add: open_write_def content_def)

lemma dump_open_truncate:
  assumes "directory self \<in> set (dirs fs)"
    and "joinpath (directory self) (name @ ''.csv'') \<notin> set (dirs fs)"
  shows "open_write fs (directory self) (joinpath (directory self) (name @ ''.csv'')) Mode_w
     = Inr (fs\<lparr>files := (files fs)(joinpath (directory self) (name @ ''.csv'') \<mapsto> [])\<rparr>)"
  using assms by (simp add: open_write_def)

text \<open>One successful \<open>dump\<close> of a non-empty payload, in full.\<close>

lemma CSV_dump_result:
  assumes dialect: "Dialect (dialect_and_format_parameters self) = Inr d"
    and dir: "directory self \<in> set (dirs fs)"
    and nodir: "joinpath (directory self) (name @ ''.csv'') \<notin> set (dirs fs)"
    and keys: "keys_within (map fst first) (first # rest)"
  shows "CSV_dump py self fs name (first # rest) =
     (None,
      (if header self \<and> \<not> dict_get_map (written_header self) name False
       then self\<lparr>written_header := (written_header self)(name \<mapsto> True)\<rparr> else self),
      fs\<lparr>files := (files fs)(joinpath (directory self) (name @ ''.csv'') \<mapsto>
           (if save_strategy self = APPEND
            then content fs (joinpath (directory self) (name @ ''.csv'')) else [])
           @ (if header self \<and> \<not> dict_get_map (written_header self) name False
              then header_line py d (map fst first) else [])
           @ concat (map (record_line py d (date_time_format self) (map fst first)) (first # rest)))\<rparr>)"
proof -
  let ?path = "joinpath (directory self) (name @ ''.csv'')"
  let ?w = "\<lparr>w_fieldnames = map fst first, w_dialect = d\<rparr>"
  have rows: "writerows py ?w (map (\<lambda>r. format_datetime_values py r (date_time_format self)) (first # rest))
      = (concat (map (record_line py d (date_time_format self) (map fst first)) (first # rest)), None)"
    using keys by (rule writerows_text)
  have hdr: "writeheader py ?w = Inr (header_line py d (map fst first))"
    by (rule writeheader_text)
  show ?thesis
  proof (cases "save_strategy self = APPEND")
    case True
    with dump_open_append [OF dir nodir] dialect rows hdr show ?thesis
      by (simp add: CSV_dump_def Let_def file_write_def del: writerows.simps)
  next
    case False
    with dump_open_truncate [OF dir nodir] dialect rows hdr show ?thesis
      by (simp add: CSV_dump_def Let_def file_write_def del: writerows.simps)
  qed
qed

lemma dialect_of_header_update [simp]:
  "dialect_and_format_parameters (self\<lparr>written_header := m\<rparr>) = dialect_and_format_parameters self"
  by (simp add: dialect_and_format_parameters_def)

text \<open>
  Claim C4. A CSV syncer with \<open>save_strategy = APPEND\<close> and \<open>header = true\<close> that has not
  yet written the header of a table name, with a dialect the csv module accepts and a
  directory that is there: two \<open>dump\<close> calls on that name with non-empty payloads (every
  key of a record among the keys of the first record of its payload) raise nothing and
  leave in the file what it held before, then the header line, once, then the records
  of the first payload, then the records of the second; the header is marked written.
\<close>

theorem CSV_append_header_once:
  assumes append: "save_strategy self = APPEND"
    and hdr: "header self"
    and fresh: "written_header self name = None"
    and dialect: "Dialect (dialect_and_format_parameters self) = Inr d"
    and dir: "directory self \<in> set (dirs fs)"
    and nodir: "joinpath (directory self) (name @ ''.csv'') \<notin> set (dirs fs)"
    and keys1: "keys_within (map fst first1) (first1 # rest1)"
    and keys2: "keys_within (map fst first2) (first2 # rest2)"
  shows "(case CSV_dump py self fs name (first1 # rest1) of
           (error1, self1, fs1) \<Rightarrow>
             (case CSV_dump py self1 fs1 name (first2 # rest2) of
                (error2, self2, fs2) \<Rightarrow>
                  error1 = None \<and> error2 = None
                  \<and> files fs2 (joinpath (directory self) (name @ ''.csv'')) =
                      Some (content fs (joinpath (directory self) (name @ ''.csv''))
                            @ header_line py d (map fst first1)
                            @ concat (map (record_line py d (date_time_format self) (map fst first1))
                                        (first1 # rest1))
                            @ concat (map (record_line py d (date_time_format self) (map fst first2))
                                        (first2 # rest2)))
                  \<and> written_header self2 name = Some True))"
proof -
  let ?path = "joinpath (directory self) (name @ ''.csv'')"
  let ?self1 = "self\<lparr>written_header := (written_header self)(name \<mapsto> True)\<rparr>"
  let ?text1 = "content fs ?path @ header_line py d (map fst first1)
      @ concat (map (record_line py d (date_time_format self) (map fst first1)) (first1 # rest1))"
  let ?fs1 = "fs\<lparr>files := (files fs)(?path \<mapsto> ?text1)\<rparr>"
  have first: "CSV_dump py self fs name (first1 # rest1) = (None, ?self1, ?fs1)"
    using CSV_dump_result [OF dialect dir nodir keys1, of py] append hdr fresh
    by (simp add: dict_get_map_def)
  have dialect1: "Dialect (dialect_and_format_parameters ?self1) = Inr d"
    using dialect by simp
  have dir1: "directory ?self1 \<in> set (dirs ?fs1)" using dir by simp
  have nodir1: "joinpath (directory ?self1) (name @ ''.csv'') \<notin> set (dirs ?fs1)"
    using nodir by simp
  have second: "CSV_dump py ?self1 ?fs1 name (first2 # rest2) =
      (None, ?self1,
       ?fs1\<lparr>files := (files ?fs1)(?path \<mapsto> ?text1
          @ concat (map (record_line py d (date_time_format self) (map fst first2)) (first2 # rest2)))\<rparr>)"
    using CSV_dump_result [OF dialect1 dir1 nodir1 keys2, of py] append
    by (simp add: dict_get_map_def content_def)
  show ?thesis
    by (simp only: first second prod.case) simp
qed

text \<open>
  Claim C5. A CSV syncer with \<open>save_strategy = OVERWRITE\<close>, under the same conditions on
  the dialect, the directory and the payloads: every \<open>dump\<close> leaves in the file only what
  it wrote itself, whatever the file held; after two \<open>dump\<close> calls on the same name the
  file holds the records of the second payload and nothing else.
\<close>

theorem CSV_overwrite_keeps_last:
  assumes overwrite: "save_strategy self = OVERWRITE"
    and dialect: "Dialect (dialect_and_format_parameters self) = Inr d"
    and dir: "directory self \<in> set (dirs fs)"
    and nodir: "joinpath (directory self) (name @ ''.csv'') \<notin> set (dirs fs)"
    and keys1: "keys_within (map fst first1) (first1 # rest1)"
    and keys2: "keys_within (map fst first2) (first2 # rest2)"
  shows "(case CSV_dump py self fs name (first1 # rest1) of
           (error1, self1, fs1) \<Rightarrow>
             (case CSV_dump py self1 fs1 name (first2 # rest2) of
                (error2, self2, fs2) \<Rightarrow>
                  error1 = None \<and> error2 = None
                  \<and> files fs1 (joinpath (directory self) (name @ ''.csv'')) =
                      Some ((if header self \<and> \<not> dict_get_map (written_header self) name False
                             then header_line py d (map fst first1) else [])
                            @ concat (map (record_line py d (date_time_format self) (map fst first1))
                                        (first1 # rest1)))
                  \<and> files fs2 (joinpath (directory self) (name @ ''.csv'')) =
                      Some (concat (map (record_line py d (date_time_format self) (map fst first2))
                                      (first2 # rest2)))))"
proof -
  let ?path = "joinpath (directory self) (name @ ''.csv'')"
  let ?first_header = "header self \<and> \<not> dict_get_map (written_header self) name False"
  let ?self1 = "if ?first_header
      then self\<lparr>written_header := (written_header self)(name \<mapsto> True)\<rparr> else self"
  let ?text1 = "(if ?first_header then header_line py d (map fst first1) else [])
      @ concat (map (record_line py d (date_time_format self) (map fst first1)) (first1 # rest1))"
  let ?fs1 = "fs\<lparr>files := (files fs)(?path \<mapsto> ?text1)\<rparr>"
  have first: "CSV_dump py self fs name (first1 # rest1) = (None, ?self1, ?fs1)"
    using CSV_dump_result [OF dialect dir nodir keys1, of py] overwrite by simp
  have same: "directory ?self1 = directory self" "save_strategy ?self1 = OVERWRITE"
    "date_time_format ?self1 = date_time_format self"
    using overwrite by simp_all
  have dialect1: "Dialect (dialect_and_format_parameters ?self1) = Inr d"
    using dialect by simp
  have dir1: "directory ?self1 \<in> set (dirs ?fs1)" using dir by simp
  have nodir1: "joinpath (directory ?self1) (name @ ''.csv'') \<notin> set (dirs ?fs1)"
    using nodir by simp
  have no_header: "\<not> (header ?self1 \<and> \<not> dict_get_map (written_header ?self1) name False)"
    by (simp add: dict_get_map_def)
  have second: "CSV_dump py ?self1 ?fs1 name (first2 # rest2) =
      (None, ?self1,
       ?fs1\<lparr>files := (files ?fs1)(?path \<mapsto>
          concat (map (record_line py d (date_time_format self) (map fst first2)) (first2 # rest2)))\<rparr>)"
    using CSV_dump_result [OF dialect1 dir1 nodir1 keys2, of py] no_header same
    by simp
  show ?thesis
    by (simp only: first second prod.case) simp
qed

section \<open>Evaluating the writer on sample values\<close>

lemma str_nat_digit: "n < 10 \<Longrightarrow> str_nat n = [digit_char n]"
  by (subst str_nat.simps) simp

lemmas writer_eval =
  header_line_def record_line_def writerow_def join_append_def write_char_def field_text_def
  py_str_def str_int_def str_bool_def str_nat_digit digit_char_def dict_get_def
  format_datetime_values_def Let_def

lemma sample_csv_dialect:
  "Dialect (dialect_and_format_parameters (sample_csv strategy)) = Inr sample_dialect"
  by (simp add: Dialect_def dialect_and_format_parameters_def sample_csv_def sample_dialect_def)

lemma sample_csv_fields [simp]:
  "directory (sample_csv strategy) = ''out''"
  "save_strategy (sample_csv strategy) = strategy"
  "header (sample_csv strategy)"
  "written_header (sample_csv strategy) name = None"
  "date_time_format (sample_csv strategy) = ''%Y-%m-%d %H:%M:%S''"
  by (simp_all add: sample_csv_def)

lemma sample_fs_fields [simp]:
  "dirs sample_fs = [''out'']"
  "files sample_fs path = None"
  by (simp_all add: sample_fs_def)

theorem CSV_append_header_once_witness:
  "(case CSV_dump sample_python (sample_csv APPEND) sample_fs ''users''
           [[(PStr ''id'', PInt 1), (PStr ''name'', PStr ''a|b'')]] of
      (error1, self1, fs1) \<Rightarrow>
        (case CSV_dump sample_python self1 fs1 ''users''
                [[(PStr ''id'', PInt 2), (PStr ''name'', PNone)]] of
           (error2, self2, fs2) \<Rightarrow>
             error1 = None \<and> error2 = None
             \<and> files fs2 ''out/users.csv'' =
                 Some (''id|name'' @ [CR, LF]
                       @ ''1|'' @ [DQUOTE] @ ''a|b'' @ [DQUOTE] @ [CR, LF]
                       @ ''2|'' @ [CR, LF])))"
proof -
  have keys1: "keys_within (map fst [(PStr ''id'', PInt 1 :: nat pyobj), (PStr ''name'', PStr ''a|b'')])
      ([(PStr ''id'', PInt 1), (PStr ''name'', PStr ''a|b'')] # [])"
    by (simp add: keys_within_def)
  have keys2: "keys_within (map fst [(PStr ''id'', PInt 2 :: nat pyobj), (PStr ''name'', PNone)])
      ([(PStr ''id'', PInt 2), (PStr ''name'', PNone)] # [])"
    by (simp add: keys_within_def)
  have "save_strategy (sample_csv APPEND) = APPEND" "header (sample_csv APPEND)"
    "written_header (sample_csv APPEND) ''users'' = None"
    "directory (sample_csv APPEND) \<in> set (dirs sample_fs)"
    "joinpath (directory (sample_csv APPEND)) (''users'' @ ''.csv'') \<notin> set (dirs sample_fs)"
    by (simp_all add: joinpath_def)
  from CSV_append_header_once [OF this(1-3) sample_csv_dialect this(4-5) keys1 keys2,
      of sample_python]
  show ?thesis
    by (simp add: writer_eval sample_dialect_def sample_python_def joinpath_def content_def
        split: prod.splits)
qed

theorem CSV_overwrite_keeps_last_witness:
  "(case CSV_dump sample_python (sample_csv OVERWRITE) sample_fs ''users''
           [[(PStr ''id'', PInt 1), (PStr ''name'', PStr ''a|b'')]] of
      (error1, self1, fs1) \<Rightarrow>
        (case CSV_dump sample_python self1 fs1 ''users''
                [[(PStr ''id'', PInt 2), (PStr ''name'', PNone)]] of
           (error2, self2, fs2) \<Rightarrow>
             error1 = None \<and> error2 = None
             \<and> files fs1 ''out/users.csv'' =
                 Some (''id|name'' @ [CR, LF] @ ''1|'' @ [DQUOTE] @ ''a|b'' @ [DQUOTE] @ [CR, LF])
             \<and> files fs2 ''out/users.csv'' = Some (''2|'' @ [CR, LF])))"
proof -
  have keys1: "keys_within (map fst [(PStr ''id'', PInt 1 :: nat pyobj), (PStr ''name'', PStr ''a|b'')])
      ([(PStr ''id'', PInt 1), (PStr ''name'', PStr ''a|b'')] # [])"
    by (simp add: keys_within_def)
  have keys2: "keys_within (map fst [(PStr ''id'', PInt 2 :: nat pyobj), (PStr ''name'', PNone)])
      ([(PStr ''id'', PInt 2), (PStr ''name'', PNone)] # [])"
    by (simp add: keys_within_def)
  have "save_strategy (sample_csv OVERWRITE) = OVERWRITE"
    "directory (sample_csv OVERWRITE) \<in> set (dirs sample_fs)"
    "joinpath (directory (sample_csv OVERWRITE)) (''users'' @ ''.csv'') \<notin> set (dirs sample_fs)"
    by (simp_all add: joinpath_def)
  from CSV_overwrite_keeps_last [OF this(1) sample_csv_dialect this(2-3) keys1 keys2,
      of sample_python]
  show ?thesis
    by (simp add: writer_eval sample_dialect_def sample_python_def joinpath_def dict_get_map_def
        split: prod.splits)
qed

section \<open>Loading what was never written, dumping nothing\<close>

text \<open>
  Claim C2, on the code. For a name with no file: \<open>CSV.load\<close> returns the empty list;
  \<open>JSON.load\<close> has no such guard and raises \<open>FileNotFoundError\<close> from \<open>read_text\<close>.
\<close>

theorem load_of_absent_file:
  assumes "\<not> path_exists fs (joinpath (directory csv) (name @ ''.csv''))"
    and "\<not> path_exists fs (make_filename json name)"
  shows "CSV_load csv fs name = Inr []
    \<and> JSON_load py json fs name = Inl (FileNotFoundError (make_filename json name))"
  using assms
  by (simp add: CSV_load_def JSON_load_def read_text_def open_read_def path_exists_def Let_def)

theorem load_of_absent_file_witness:
  "CSV_load (sample_csv OVERWRITE) sample_fs ''users'' = Inr []
   \<and> JSON_load sample_python sample_json sample_fs ''users''
       = Inl (FileNotFoundError ''out/users.json'')"
proof -
  have a: "\<not> path_exists sample_fs (joinpath (directory (sample_csv OVERWRITE)) (''users'' @ ''.csv''))"
    by (simp add: path_exists_def joinpath_def)
  have b: "\<not> path_exists sample_fs (make_filename sample_json ''users'')"
    by (simp add: path_exists_def make_filename_def joinpath_def sample_json_def)
  from load_of_absent_file [OF a b, of sample_python]
  show ?thesis by (simp add: make_filename_def joinpath_def sample_json_def)
qed

text \<open>
  Claim C3. For both syncers and every name, \<open>dump\<close> of the empty list raises nothing and
  returns the file system (and the instance) as they were.
\<close>

theorem dump_of_nothing:
  "CSV_dump py csv fs name [] = (None, csv, fs) \<and> JSON_dump py json fs name [] = (None, fs)"
  by (simp add: CSV_dump_def JSON_dump_def)

theorem dump_of_nothing_witness:
  "CSV_dump sample_python (sample_csv APPEND) sample_fs ''users'' []
     = (None, sample_csv APPEND, sample_fs)
   \<and> JSON_dump sample_python sample_json sample_fs ''users'' [] = (None, sample_fs)"
  using dump_of_nothing [of sample_python "sample_csv APPEND" sample_fs "''users''" sample_json]
  by simp

section \<open>The validator of the one-character options\<close>

text \<open>
  Claim C6, on the code. The validator rejects every string of two or more characters,
  and accepts the empty string, which is not one character either.
\<close>

theorem only_single_characters_allowed_cases:
  "only_single_characters_allowed [] field_name = Inr []
   \<and> (1 < length v \<longrightarrow>
        only_single_characters_allowed v field_name =
          Inl (ValidationError field_name (field_name @ '' must be a one-character string'')))
   \<and> (length v = 1 \<longrightarrow> only_single_characters_allowed v field_name = Inr v)"
  by (simp add: only_single_characters_allowed_def)

text \<open>
  With the empty delimiter the construction succeeds; the first \<open>dump\<close> then opens the
  file, which creates it, and fails with the \<open>TypeError\<close> of the csv module.
\<close>

theorem only_single_characters_allowed_cases_witness:
  "CSV_init sample_fs ''out'' [] [BACKSLASH] Literal_MINIMAL ''%Y'' True OVERWRITE
     = Inr \<lparr>directory = ''out'', delimiter = [], escape_character = [BACKSLASH],
            quoting = QUOTE_MINIMAL, date_time_format = ''%Y'', header = True,
            save_strategy = OVERWRITE, written_header = Map.empty\<rparr>
   \<and> CSV_init sample_fs ''out'' ''||'' [BACKSLASH] Literal_MINIMAL ''%Y'' True OVERWRITE
     = Inl [ValidationError ''delimiter'' ''delimiter must be a one-character string'']
   \<and> fst (CSV_dump sample_python
        \<lparr>directory = ''out'', delimiter = [], escape_character = [BACKSLASH],
            quoting = QUOTE_MINIMAL, date_time_format = ''%Y'', header = True,
            save_strategy = OVERWRITE, written_header = Map.empty\<rparr>
        sample_fs ''users'' [[(PStr ''id'', PInt 1)]])
     = Some (TypeError (CHR 0x22 # ''delimiter'' @ CHR 0x22 # '' must be a 1-character string''))
   \<and> files (snd (snd (CSV_dump sample_python
        \<lparr>directory = ''out'', delimiter = [], escape_character = [BACKSLASH],
            quoting = QUOTE_MINIMAL, date_time_format = ''%Y'', header = True,
            save_strategy = OVERWRITE, written_header = Map.empty\<rparr>
        sample_fs ''users'' [[(PStr ''id'', PInt 1)]]))) ''out/users.csv''
     = Some []"
proof -
  have empty: "only_single_characters_allowed [] ''delimiter'' = Inr []"
    using only_single_characters_allowed_cases [of "''delimiter''"] by simp
  have two: "only_single_characters_allowed ''||'' ''delimiter''
      = Inl (ValidationError ''delimiter'' ''delimiter must be a one-character string'')"
    using only_single_characters_allowed_cases [of "''delimiter''" "''||''"] by simp
  have one: "only_single_characters_allowed [BACKSLASH] ''escape_character'' = Inr [BACKSLASH]"
    using only_single_characters_allowed_cases [of "''escape_character''" "[BACKSLASH]"] by simp
  have dir: "directory_or_new_path sample_fs ''out'' = Inr ''out''"
    by (simp add: directory_or_new_path_def is_file_def)
  show ?thesis
    by (simp add: CSV_init_def errors_of_def empty two one dir map_to_csv_literals_def
        CSV_dump_def open_write_def joinpath_def Dialect_def dialect_and_format_parameters_def)
qed

section \<open>Quote characters in a field\<close>

text \<open>
  Claim C7, as stated, at a syncer whose escape character is the quote character: the
  quote inside the field is written as two quote characters.
\<close>

theorem quote_escaped_counterexample:
  "files (snd (snd (CSV_dump sample_python
       ((sample_csv OVERWRITE)\<lparr>escape_character := [DQUOTE], quoting := QUOTE_ALL\<rparr>)
       sample_fs ''t'' [[(PStr ''k'', PStr [CHR ''a'', DQUOTE, CHR ''b''])]]))) ''out/t.csv''
     = Some ([DQUOTE, CHR ''k'', DQUOTE, CR, LF]
             @ [DQUOTE, CHR ''a'', DQUOTE, DQUOTE, CHR ''b'', DQUOTE, CR, LF])"
proof -
  let ?self = "(sample_csv OVERWRITE)\<lparr>escape_character := [DQUOTE], quoting := QUOTE_ALL\<rparr>"
  let ?d = "\<lparr>delimiter_char = CHR ''|'', doublequote = False, escapechar = DQUOTE,
      lineterminator = [CR, LF], quotechar = DQUOTE, quoting_policy = QUOTE_ALL\<rparr>"
  have dialect: "Dialect (dialect_and_format_parameters ?self) = Inr ?d"
    by (simp add: Dialect_def dialect_and_format_parameters_def sample_csv_def)
  have dir: "directory ?self \<in> set (dirs sample_fs)" by simp
  have nodir: "joinpath (directory ?self) (''t'' @ ''.csv'') \<notin> set (dirs sample_fs)"
    by (simp add: joinpath_def)
  have keys: "keys_within (map fst [(PStr ''k'', PStr [CHR ''a'', DQUOTE, CHR ''b''] :: nat pyobj)])
      ([(PStr ''k'', PStr [CHR ''a'', DQUOTE, CHR ''b''])] # [])"
    by (simp add: keys_within_def)
  show ?thesis
    unfolding CSV_dump_result [OF dialect dir nodir keys]
    by (simp add: writer_eval joinpath_def dict_get_map_def)
qed

text \<open>
  Claim C7, amended. For every CSV syncer whose escape character is not the quote
  character, and whose dialect the csv module accepts: the text of a field is the text
  of its characters, in quotes or not, and a quote character in the field is written
  as the escape character followed by the quote character, which is not a doubled
  quote.
\<close>

theorem quote_escaped_not_doubled:
  assumes "Dialect (dialect_and_format_parameters self) = Inr d"
    and "escape_character self \<noteq> [DQUOTE]"
  shows "quotechar d = DQUOTE \<and> escape_character self = [escapechar d]
    \<and> fst (write_char d DQUOTE) = [escapechar d, DQUOTE]
    \<and> fst (write_char d DQUOTE) \<noteq> [DQUOTE, DQUOTE]
    \<and> (join_append d fld quoted = concat (map (\<lambda>c. fst (write_char d c)) fld)
        \<or> join_append d fld quoted = DQUOTE # concat (map (\<lambda>c. fst (write_char d c)) fld) @ [DQUOTE])"
proof -
  from assms(1) have len: "length (escape_character self) = 1"
    and d: "d = \<lparr>delimiter_char = hd (delimiter self), doublequote = False,
        escapechar = hd (escape_character self), lineterminator = [CR, LF],
        quotechar = DQUOTE, quoting_policy = quoting self\<rparr>"
    by (auto simp: Dialect_def dialect_and_format_parameters_def split: if_splits)
  from len obtain e where e: "escape_character self = [e]"
    by (cases "escape_character self") auto
  with assms(2) have "e \<noteq> DQUOTE" by simp
  with d e show ?thesis
    by (simp add: write_char_def join_append_def Let_def)
qed

theorem quote_escaped_not_doubled_witness:
  "fst (write_char sample_dialect DQUOTE) = [BACKSLASH, DQUOTE]
   \<and> join_append sample_dialect [CHR ''a'', DQUOTE, CHR ''|''] False
       = [DQUOTE, CHR ''a'', BACKSLASH, DQUOTE, CHR ''|'', DQUOTE]"
proof -
  have ne: "escape_character (sample_csv OVERWRITE) \<noteq> [DQUOTE]"
    by (simp add: sample_csv_def)
  from quote_escaped_not_doubled [OF sample_csv_dialect ne, of "[CHR ''a'', DQUOTE, CHR ''|'']" False]
  show ?thesis
    by (simp add: sample_dialect_def write_char_def join_append_def)
qed

section \<open>The fed reader and the reader of lines\<close>

declare feed.simps [simp del]
declare reader_rows.simps [simp del]
declare readlines.simps [simp del]

lemma process_chars_append:
  "process_chars d r (xs @ ys) =
     (case process_chars d r xs of Inl e \<Rightarrow> Inl e | Inr r' \<Rightarrow> process_chars d r' ys)"
  by (induction xs arbitrary: r) (auto split: sum.splits)

lemma process_chars_snoc:
  "process_chars d r0 cur = Inr r \<Longrightarrow>
   process_chars d r0 (cur @ [c]) = parse_process_char d r (Some c)"
  by (simp add: process_chars_append split: sum.splits)

lemma reader_rows_reset_Nil: "reader_rows d parse_reset [] = Inr []"
  by (simp add: parse_reset_def reader_rows.simps)

lemma reader_rows_line:
  assumes "process_chars d r0 line = Inr r1" and "parse_process_char d r1 None = Inr r2"
  shows "reader_rows d r0 (line # rest) =
     end_of_line r2 (reader_rows d parse_reset rest) (reader_rows d r2 rest)"
  using assms by (simp add: process_line_def end_of_line_def reader_rows.simps)

lemma readlines_line_ends:
  "line_ends c cs \<Longrightarrow> readlines cur (c # cs) = (cur @ [c]) # readlines [] cs"
  by (cases cs) (auto simp: line_ends_def readlines.simps(2) [of cur c] readlines.simps(1))

lemma readlines_inline:
  assumes "\<not> line_ends c cs"
  shows "readlines cur (c # cs) = readlines (cur @ [c]) cs"
proof (cases cs)
  case Nil
  with assms show ?thesis
    by (auto simp: line_ends_def readlines.simps(2) [of cur c])
next
  case (Cons c' cs')
  with assms have c: "c \<noteq> LF" "c = CR \<longrightarrow> c' = LF"
    by (auto simp: line_ends_def)
  show ?thesis
  proof (cases "c = CR")
    case True
    with c Cons show ?thesis
      by (simp add: readlines.simps(2) [of cur CR] readlines.simps(2) [of "cur @ [CR]" LF])
  next
    case False
    with c show ?thesis
      by (simp add: readlines.simps(2) [of cur c])
  qed
qed

lemma feed_reader_rows:
  "feed d r (cur \<noteq> []) cs = Inr rows \<Longrightarrow> process_chars d r0 cur = Inr r \<Longrightarrow>
   reader_rows d r0 (readlines cur cs) = Inr rows"
proof (induction cs arbitrary: cur r r0 rows)
  case Nil
  show ?case
  proof (cases "cur = []")
    case True
    with Nil show ?thesis by (simp add: feed.simps readlines.simps)
  next
    case False
    with Nil.prems(1) obtain r2 where r2: "parse_process_char d r None = Inr r2"
      and rows: "end_of_line r2 (Inr []) (reader_rows d r2 []) = Inr rows"
      by (cases "parse_process_char d r None") (simp_all add: feed.simps)
    from False have "readlines cur [] = [cur]" by (simp add: readlines.simps)
    with rows show ?thesis
      by (simp add: reader_rows_line [OF Nil.prems(2) r2] reader_rows_reset_Nil)
  qed
next
  case (Cons c cs)
  from Cons.prems(1) obtain r1 where r1: "parse_process_char d r (Some c) = Inr r1"
    by (cases "parse_process_char d r (Some c)") (simp_all add: feed.simps)
  with Cons.prems(2) have line: "process_chars d r0 (cur @ [c]) = Inr r1"
    by (simp add: process_chars_snoc)
  show ?case
  proof (cases "line_ends c cs")
    case True
    from Cons.prems(1) r1 True obtain r2 where r2: "parse_process_char d r1 None = Inr r2"
      and rows: "end_of_line r2 (feed d parse_reset False cs) (feed d r2 False cs) = Inr rows"
      by (cases "parse_process_char d r1 None") (simp_all add: feed.simps)
    have lines: "reader_rows d r0 (readlines cur (c # cs)) =
        end_of_line r2 (reader_rows d parse_reset (readlines [] cs))
          (reader_rows d r2 (readlines [] cs))"
      by (simp add: readlines_line_ends [OF True] reader_rows_line [OF line r2])
    show ?thesis
    proof (cases "cur_state r2 = START_RECORD")
      case start: True
      with rows obtain rows' where
        rest: "feed d parse_reset False cs = Inr rows'" and eq: "rows = cur_fields r2 # rows'"
        by (cases "feed d parse_reset False cs") (auto simp: end_of_line_def)
      from rest have "feed d parse_reset ([] \<noteq> ([]::string)) cs = Inr rows'" by simp
      then have "reader_rows d parse_reset (readlines [] cs) = Inr rows'"
        by (rule Cons.IH) simp
      with start eq show ?thesis
        unfolding lines by (simp add: end_of_line_def)
    next
      case False
      with rows have "feed d r2 ([] \<noteq> ([]::string)) cs = Inr rows"
        by (simp add: end_of_line_def)
      then have "reader_rows d r2 (readlines [] cs) = Inr rows"
        by (rule Cons.IH) simp
      with False show ?thesis
        unfolding lines by (simp add: end_of_line_def)
    qed
  next
    case False
    with Cons.prems(1) r1 have "feed d r1 (cur @ [c] \<noteq> []) cs = Inr rows"
      by (simp add: feed.simps)
    then have "reader_rows d r0 (readlines (cur @ [c]) cs) = Inr rows"
      using line by (rule Cons.IH)
    then show ?thesis
      by (simp only: readlines_inline [OF False])
  qed
qed

section \<open>Single steps of the reader\<close>

lemma write_char_separated:
  "well_separated d \<Longrightarrow>
   write_char d c =
     (if c = quotechar d \<or> c = escapechar d then ([escapechar d, c], False)
      else ([c], c = delimiter_char d \<or> c = CR \<or> c = LF))"
  by (auto simp: write_char_def well_separated_def)

lemma step_start:
  assumes "s = START_RECORD \<or> s = START_FIELD" and "c \<noteq> CR" and "c \<noteq> LF"
    and "length fld < field_size_limit"
  shows "parse_process_char d (reader_at s fld saved) (Some c) =
     Inr (if c = quotechar d then reader_at IN_QUOTED_FIELD fld saved
          else if c = escapechar d then reader_at ESCAPED_CHAR fld saved
          else if c = delimiter_char d then reader_at START_FIELD [] (saved @ [fld])
          else reader_at IN_FIELD (fld @ [c]) saved)"
  using assms
  by (auto simp: parse_process_char_def start_field_def parse_add_char_def parse_save_field_def)

lemma step_in_field:
  assumes "c \<noteq> CR" and "c \<noteq> LF" and "length fld < field_size_limit"
  shows "parse_process_char d (reader_at IN_FIELD fld saved) (Some c) =
     Inr (if c = escapechar d then reader_at ESCAPED_CHAR fld saved
          else if c = delimiter_char d then reader_at START_FIELD [] (saved @ [fld])
          else reader_at IN_FIELD (fld @ [c]) saved)"
  using assms
  by (auto simp: parse_process_char_def in_field_def parse_add_char_def parse_save_field_def)

lemma step_CR:
  assumes "s = START_FIELD \<or> s = IN_FIELD"
  shows "parse_process_char d (reader_at s fld saved) (Some CR) =
     Inr (reader_at EAT_CRNL [] (saved @ [fld]))"
  using assms
  by (auto simp: parse_process_char_def start_field_def in_field_def parse_save_field_def)

lemma step_escaped:
  assumes "c \<noteq> CR" and "c \<noteq> LF" and "length fld < field_size_limit"
  shows "parse_process_char d (reader_at ESCAPED_CHAR fld saved) (Some c) =
     Inr (reader_at IN_FIELD (fld @ [c]) saved)"
  using assms by (simp add: parse_process_char_def parse_add_char_def)

lemma step_in_quoted:
  assumes "\<not> doublequote d" and "length fld < field_size_limit"
  shows "parse_process_char d (reader_at IN_QUOTED_FIELD fld saved) (Some c) =
     Inr (if c = escapechar d then reader_at ESCAPE_IN_QUOTED_FIELD fld saved
          else if c = quotechar d then reader_at IN_FIELD fld saved
          else reader_at IN_QUOTED_FIELD (fld @ [c]) saved)"
  using assms by (simp add: parse_process_char_def parse_add_char_def)

lemma step_in_quoted_close:
  assumes "\<not> doublequote d" and "quotechar d \<noteq> escapechar d"
  shows "parse_process_char d (reader_at IN_QUOTED_FIELD fld saved) (Some (quotechar d)) =
     Inr (reader_at IN_FIELD fld saved)"
  using assms by (simp add: parse_process_char_def)

lemma step_in_quoted_eol:
  "parse_process_char d (reader_at IN_QUOTED_FIELD fld saved) None =
     Inr (reader_at IN_QUOTED_FIELD fld saved)"
  by (simp add: parse_process_char_def)

lemma step_escape_in_quoted:
  assumes "length fld < field_size_limit"
  shows "parse_process_char d (reader_at ESCAPE_IN_QUOTED_FIELD fld saved) (Some c) =
     Inr (reader_at IN_QUOTED_FIELD (fld @ [c]) saved)"
  using assms by (simp add: parse_process_char_def parse_add_char_def)

lemma step_eat_LF:
  "parse_process_char d (reader_at EAT_CRNL fld saved) (Some LF) = Inr (reader_at EAT_CRNL fld saved)"
  by (simp add: parse_process_char_def)

lemma step_eat_eol:
  "parse_process_char d (reader_at EAT_CRNL fld saved) None = Inr (reader_at START_RECORD fld saved)"
  by (simp add: parse_process_char_def)

section \<open>Steps of the fed reader\<close>

lemma feed_inline:
  "parse_process_char d r (Some c) = Inr r1 \<Longrightarrow> \<not> line_ends c cs \<Longrightarrow>
   feed d r mid (c # cs) = feed d r1 True cs"
  by (simp add: feed.simps)

lemma feed_line_end:
  "parse_process_char d r (Some c) = Inr r1 \<Longrightarrow> line_ends c cs \<Longrightarrow>
   parse_process_char d r1 None = Inr r2 \<Longrightarrow>
   feed d r mid (c # cs) = end_of_line r2 (feed d parse_reset False cs) (feed d r2 False cs)"
  by (simp add: feed.simps)

lemma not_line_ends: "c \<noteq> CR \<Longrightarrow> c \<noteq> LF \<Longrightarrow> \<not> line_ends c cs"
  by (simp add: line_ends_def)

lemma CR_LF_not_line_ends: "\<not> line_ends CR (LF # cs)"
  by (simp add: line_ends_def)

lemma LF_line_ends: "line_ends LF cs"
  by (simp add: line_ends_def)

text \<open>An escaped pair inside an unquoted field.\<close>

lemma feed_escaped_pair:
  assumes "s = START_RECORD \<or> s = START_FIELD \<or> s = IN_FIELD"
    and e: "escapechar d \<noteq> CR" "escapechar d \<noteq> LF" "escapechar d \<noteq> quotechar d"
    and c: "c \<noteq> CR" "c \<noteq> LF"
    and len: "length fld < field_size_limit"
  shows "feed d (reader_at s fld saved) mid (escapechar d # c # rest) =
     feed d (reader_at IN_FIELD (fld @ [c]) saved) True rest"
proof -
  have first: "parse_process_char d (reader_at s fld saved) (Some (escapechar d)) =
      Inr (reader_at ESCAPED_CHAR fld saved)"
  proof (cases "s = IN_FIELD")
    case True
    then show ?thesis using step_in_field [OF e(1,2) len, of d saved] by simp
  next
    case False
    with assms(1) have "s = START_RECORD \<or> s = START_FIELD" by simp
    then show ?thesis using step_start [OF _ e(1,2) len, of s d saved] e(3) by simp
  qed
  have "feed d (reader_at s fld saved) mid (escapechar d # c # rest) =
      feed d (reader_at ESCAPED_CHAR fld saved) True (c # rest)"
    using first not_line_ends [OF e(1,2)] by (rule feed_inline)
  also have "\<dots> = feed d (reader_at IN_FIELD (fld @ [c]) saved) True rest"
    using step_escaped [OF c len] not_line_ends [OF c] by (rule feed_inline)
  finally show ?thesis .
qed

lemma feed_plain_char:
  assumes "s = START_RECORD \<or> s = START_FIELD \<or> s = IN_FIELD"
    and c: "c \<noteq> CR" "c \<noteq> LF" "c \<noteq> quotechar d" "c \<noteq> escapechar d" "c \<noteq> delimiter_char d"
    and len: "length fld < field_size_limit"
  shows "feed d (reader_at s fld saved) mid (c # rest) =
     feed d (reader_at IN_FIELD (fld @ [c]) saved) True rest"
proof -
  have "parse_process_char d (reader_at s fld saved) (Some c) =
      Inr (reader_at IN_FIELD (fld @ [c]) saved)"
  proof (cases "s = IN_FIELD")
    case True
    then show ?thesis using step_in_field [OF c(1,2) len, of d saved] c by simp
  next
    case False
    with assms(1) have "s = START_RECORD \<or> s = START_FIELD" by simp
    then show ?thesis using step_start [OF _ c(1,2) len, of s d saved] c by simp
  qed
  then show ?thesis using not_line_ends [OF c(1,2)] by (rule feed_inline)
qed

text \<open>The characters of a field that needs no quotes.\<close>

lemma feed_unquoted:
  assumes ws: "well_separated d"
    and "s = START_RECORD \<or> s = START_FIELD \<or> s = IN_FIELD"
    and "\<forall>c \<in> set f. c \<noteq> CR \<and> c \<noteq> LF \<and> c \<noteq> delimiter_char d"
    and "length (fld @ f) \<le> field_size_limit"
    and "f \<noteq> []"
  shows "feed d (reader_at s fld saved) mid (escaped d f @ rest) =
     feed d (reader_at IN_FIELD (fld @ f) saved) True rest"
  using assms(2-5)
proof (induction f arbitrary: s fld mid)
  case Nil
  then show ?case by simp
next
  case (Cons c f)
  from ws have e: "escapechar d \<noteq> CR" "escapechar d \<noteq> LF" "escapechar d \<noteq> quotechar d"
    and q: "quotechar d \<noteq> CR" "quotechar d \<noteq> LF"
    by (auto simp: well_separated_def)
  from Cons.prems have c: "c \<noteq> CR" "c \<noteq> LF" "c \<noteq> delimiter_char d"
    and len: "length fld < field_size_limit" by auto
  have one: "feed d (reader_at s fld saved) mid (escaped d [c] @ escaped d f @ rest) =
      feed d (reader_at IN_FIELD (fld @ [c]) saved) True (escaped d f @ rest)"
  proof (cases "c = quotechar d \<or> c = escapechar d")
    case True
    with ws have "escaped d [c] = [escapechar d, c]" by (simp add: write_char_separated)
    with feed_escaped_pair [OF Cons.prems(1) e c(1,2) len] show ?thesis by simp
  next
    case False
    with ws c have "escaped d [c] = [c]" by (simp add: write_char_separated)
    with feed_plain_char [OF Cons.prems(1) c(1,2) _ _ c(3) len] False show ?thesis by simp
  qed
  show ?case
  proof (cases "f = []")
    case True
    with one show ?thesis by simp
  next
    case False
    have "feed d (reader_at IN_FIELD (fld @ [c]) saved) True (escaped d f @ rest) =
        feed d (reader_at IN_FIELD ((fld @ [c]) @ f) saved) True rest"
      using Cons.prems(2,3) False by (intro Cons.IH) auto
    with one show ?thesis by simp
  qed
qed

end
